theory Spec2Isabelle
  imports Main
begin

section \<open>JavaScript strings\<close>

text \<open>
  A JavaScript string is modelled as a \<^typ>\<open>string\<close> whose characters are the code units
  \<open>0..255\<close> (the Latin-1 range of UTF-16). Code units above \<open>255\<close> are outside the model.
\<close>

definition codeUnit :: "char \<Rightarrow> nat" where
  "codeUnit c = of_char c"

text \<open>
  The characters that \<^verbatim>\<open>String.prototype.trim\<close> strips and that the regular expression class
  \<^verbatim>\<open>\s\<close> matches: TAB, LF, VT, FF, CR, SPACE and NBSP (the members of WhiteSpace and
  LineTerminator below 256).
\<close>

definition isWhiteSpace :: "char \<Rightarrow> bool" where
  "isWhiteSpace c = (codeUnit c \<in> {9, 10, 11, 12, 13, 32, 160})"

text \<open>\<^verbatim>\<open>[a-z0-9-]\<close>\<close>

definition isSlugChar :: "char \<Rightarrow> bool" where
  "isSlugChar c = ((97 \<le> codeUnit c \<and> codeUnit c \<le> 122) \<or> (48 \<le> codeUnit c \<and> codeUnit c \<le> 57) \<or> codeUnit c = 45)"

text \<open>\<^verbatim>\<open>\w\<close>, that is \<^verbatim>\<open>[A-Za-z0-9_]\<close>\<close>

definition isWordChar :: "char \<Rightarrow> bool" where
  "isWordChar c = ((97 \<le> codeUnit c \<and> codeUnit c \<le> 122) \<or> (65 \<le> codeUnit c \<and> codeUnit c \<le> 90)
     \<or> (48 \<le> codeUnit c \<and> codeUnit c \<le> 57) \<or> codeUnit c = 95)"

text \<open>The line terminators below 256, which \<^verbatim>\<open>.\<close> does not match: LF and CR.\<close>

definition isLineTerminator :: "char \<Rightarrow> bool" where
  "isLineTerminator c = (codeUnit c = 10 \<or> codeUnit c = 13)"

text \<open>
  \<^verbatim>\<open>toLowerCase\<close> on one code unit: \<open>A-Z\<close> and the Latin-1 capitals \<open>0xC0-0xDE\<close>
  (without the multiplication sign \<open>0xD7\<close>) move up by 32.
\<close>

definition toLowerChar :: "char \<Rightarrow> char" where
  "toLowerChar c =
     (if (65 \<le> codeUnit c \<and> codeUnit c \<le> 90) \<or> (192 \<le> codeUnit c \<and> codeUnit c \<le> 222 \<and> codeUnit c \<noteq> 215)
      then char_of (codeUnit c + 32) else c)"

definition toUpperAscii :: "char \<Rightarrow> char" where
  "toUpperAscii c = (if 97 \<le> codeUnit c \<and> codeUnit c \<le> 122 then char_of (codeUnit c - 32) else c)"

definition toLowerCase :: "string \<Rightarrow> string" where
  "toLowerCase s = map toLowerChar s"

definition trim :: "string \<Rightarrow> string" where
  "trim s = rev (dropWhile isWhiteSpace (rev (dropWhile isWhiteSpace s)))"

text \<open>\<^verbatim>\<open>s.replace(/\s+/g, '-')\<close>: every maximal run of white space becomes one hyphen.\<close>

function replace_ws_runs :: "string \<Rightarrow> string" where
  "replace_ws_runs [] = []"
| "replace_ws_runs (c # cs) =
     (if isWhiteSpace c then CHR ''-'' # replace_ws_runs (dropWhile isWhiteSpace cs)
      else c # replace_ws_runs cs)"
  by pat_completeness auto
termination
  by (relation "measure length") (auto simp: length_dropWhile_le less_Suc_eq_le)

text \<open>\<^verbatim>\<open>s.replace(/[^a-z0-9-]/g, '')\<close>\<close>

definition strip_non_slug :: "string \<Rightarrow> string" where
  "strip_non_slug s = filter isSlugChar s"

text \<open>\<^verbatim>\<open>s.replace(/-/g, '_')\<close>\<close>

definition hyphens_to_underscores :: "string \<Rightarrow> string" where
  "hyphens_to_underscores s = map (\<lambda>c. if c = CHR ''-'' then CHR ''_'' else c) s"

text \<open>\<^verbatim>\<open>s.startsWith(p)\<close> and \<^verbatim>\<open>s.includes(p)\<close>\<close>

fun startsWith :: "string \<Rightarrow> string \<Rightarrow> bool" where
  "startsWith s [] = True"
| "startsWith [] (p # ps) = False"
| "startsWith (c # cs) (p # ps) = (c = p \<and> startsWith cs ps)"

fun str_includes :: "string \<Rightarrow> string \<Rightarrow> bool" where
  "str_includes [] p = (p = [])"
| "str_includes (c # cs) p = (startsWith (c # cs) p \<or> str_includes cs p)"

text \<open>\<^verbatim>\<open>s.split(sep)\<close> for a one-character separator: never the empty list.\<close>

fun split_on :: "char \<Rightarrow> string \<Rightarrow> string list" where
  "split_on sep [] = [[]]"
| "split_on sep (c # cs) =
     (if c = sep then [] # split_on sep cs
      else (case split_on sep cs of [] \<Rightarrow> [[c]] | w # ws \<Rightarrow> (c # w) # ws))"

text \<open>\<^verbatim>\<open>xs.join(sep)\<close>\<close>

fun join :: "string \<Rightarrow> string list \<Rightarrow> string" where
  "join sep [] = []"
| "join sep [x] = x"
| "join sep (x # y # ys) = x @ sep @ join sep (y # ys)"

text \<open>\<^verbatim>\<open>xs.slice(-n)\<close>: the last \<open>n\<close> elements, all of them when there are fewer.\<close>

definition slice_last :: "nat \<Rightarrow> 'a list \<Rightarrow> 'a list" where
  "slice_last n xs = drop (length xs - n) xs"

section \<open>Sanitizing name and category (create-component)\<close>

text \<open>
  \<^verbatim>\<open>const sanitizedName = name.trim().toLowerCase().replace(/\s+/g, '-').replace(/[^a-z0-9-]/g, '');\<close>
  \<^verbatim>\<open>const sanitizedCategory = category.trim().toLowerCase().replace(/\s+/g, '-');\<close>
\<close>

definition sanitizedName :: "string \<Rightarrow> string" where
  "sanitizedName name = strip_non_slug (replace_ws_runs (toLowerCase (trim name)))"

definition sanitizedCategory :: "string \<Rightarrow> string" where
  "sanitizedCategory category = replace_ws_runs (toLowerCase (trim category))"

section \<open>JavaScript values, errors and HTTP responses\<close>

text \<open>
  The values that travel through \<^verbatim>\<open>res.json(...)\<close> and through metadata objects. An object
  is an association list in insertion order; a field whose value is \<open>JUndefined\<close> is a field
  that JSON serialisation drops.
\<close>

datatype jsval =
    JUndefined
  | JNull
  | JBool bool
  | JNum int
  | JStr string
  | JArr "jsval list"
  | JObj "(string \<times> jsval) list"

text \<open>\<^verbatim>\<open>obj[key]\<close> on an object value: \<open>JUndefined\<close> when the key is absent.\<close>

definition field :: "jsval \<Rightarrow> string \<Rightarrow> jsval" where
  "field v k = (case v of JObj kvs \<Rightarrow> (case map_of kvs k of Some x \<Rightarrow> x | None \<Rightarrow> JUndefined)
                | _ \<Rightarrow> JUndefined)"

text \<open>
  A thrown \<^verbatim>\<open>Error\<close>: the fields the handlers read in their \<^verbatim>\<open>catch\<close> blocks.
  \<open>err_response\<close> is \<^verbatim>\<open>error.response\<close> of an axios error (status and status text).
\<close>

record js_error =
  err_message :: string
  err_stack :: string
  err_code :: "string option"
  err_stderr :: "string option"
  err_response :: "(nat \<times> string) option"

definition Error :: "string \<Rightarrow> js_error" where
  "Error msg = \<lparr>err_message = msg, err_stack = ''Error: '' @ msg, err_code = None,
     err_stderr = None, err_response = None\<rparr>"

text \<open>\<^verbatim>\<open>res.status(n).json(v)\<close>\<close>

record response =
  status :: nat
  json :: jsval

text \<open>
  \<^verbatim>\<open>JSON.parse\<close> and \<^verbatim>\<open>JSON.stringify(v, null, 2)\<close> belong to the JavaScript engine, not to
  this repository: the handlers take them as parameters. \<open>JSON_parse\<close> returns \<open>Inl\<close> the
  message of the \<^verbatim>\<open>SyntaxError\<close> it throws. \<open>TypeError_message v p\<close> is the engine's message
  for the \<^verbatim>\<open>TypeError\<close> of reading or setting property \<open>p\<close> on a value \<open>v\<close> that has none.
\<close>

record js_engine =
  JSON_parse :: "string \<Rightarrow> string + jsval"
  JSON_stringify :: "jsval \<Rightarrow> string"
  TypeError_message :: "jsval \<Rightarrow> string \<Rightarrow> string"

text \<open>Truthiness of a request field that is a string or absent.\<close>

definition truthy :: "string option \<Rightarrow> bool" where
  "truthy v = (case v of None \<Rightarrow> False | Some s \<Rightarrow> s \<noteq> [])"

definition str_of :: "string option \<Rightarrow> string" where
  "str_of v = (case v of None \<Rightarrow> [] | Some s \<Rightarrow> s)"

section \<open>Paths and the file system\<close>

text \<open>
  An absolute POSIX path is its list of segments (the root is \<open>[]\<close>). \<^verbatim>\<open>path.join\<close>
  concatenates its arguments with \<^verbatim>\<open>/\<close> and normalises: empty and \<^verbatim>\<open>.\<close> segments
  vanish, \<^verbatim>\<open>..\<close> removes the segment before it and is dropped at the root. A trailing
  \<^verbatim>\<open>/\<close>, which names the same file, is not represented.
\<close>

type_synonym path = "string list"

fun normalize_segs :: "path \<Rightarrow> string list \<Rightarrow> path" where
  "normalize_segs acc [] = acc"
| "normalize_segs acc (s # ss) =
     (if s = [] \<or> s = ''.'' then normalize_segs acc ss
      else if s = ''..'' then normalize_segs (butlast acc) ss
      else normalize_segs (acc @ [s]) ss)"

definition path_join :: "path \<Rightarrow> string list \<Rightarrow> path" where
  "path_join base parts = normalize_segs base (concat (map (split_on CHR ''/'') parts))"

text \<open>The string of an absolute path, as \<^verbatim>\<open>path.join\<close> returns it.\<close>

definition path_string :: "path \<Rightarrow> string" where
  "path_string p = (if p = [] then ''/'' else concat (map (\<lambda>s. ''/'' @ s) p))"

text \<open>\<^verbatim>\<open>path.relative(from, to)\<close> on absolute paths.\<close>

fun strip_common :: "path \<Rightarrow> path \<Rightarrow> path \<times> path" where
  "strip_common (a # as) (b # bs) = (if a = b then strip_common as bs else (a # as, b # bs))"
| "strip_common as bs = (as, bs)"

definition path_relative :: "path \<Rightarrow> path \<Rightarrow> string" where
  "path_relative from to =
     (case strip_common from to of (f, t) \<Rightarrow> join ''/'' (map (\<lambda>_. ''..'') f @ t))"

text \<open>
  The file system is a map from absolute paths to entries; the root is always a directory.
  Permissions and symbolic links are not modelled. The operations are those of Node's
  \<^verbatim>\<open>fs\<close> module that the handlers call; each returns \<open>Inl\<close> the error it throws.
\<close>

datatype fs_entry = File string | Dir

type_synonym filesystem = "path \<Rightarrow> fs_entry option"

definition lookup_path :: "filesystem \<Rightarrow> path \<Rightarrow> fs_entry option" where
  "lookup_path fs p = (if p = [] then Some Dir else fs p)"

definition existsSync :: "filesystem \<Rightarrow> path \<Rightarrow> bool" where
  "existsSync fs p = (lookup_path fs p \<noteq> None)"

definition is_file :: "fs_entry option \<Rightarrow> bool" where
  "is_file e = (case e of Some (File _) \<Rightarrow> True | _ \<Rightarrow> False)"

definition fs_error :: "string \<Rightarrow> string \<Rightarrow> string \<Rightarrow> path \<Rightarrow> js_error" where
  "fs_error c what syscall p =
     (Error (c @ '': '' @ what @ '', '' @ syscall @ '' '' @ [CHR 0x27] @ path_string p @ [CHR 0x27]))
       \<lparr>err_code := Some c\<rparr>"

definition prefixes_of :: "path \<Rightarrow> path list" where
  "prefixes_of p = map (\<lambda>n. take n p) [1..<Suc (length p)]"

text \<open>\<^verbatim>\<open>fs.mkdirSync(p, { recursive: true })\<close>\<close>

definition mkdirSync_recursive :: "filesystem \<Rightarrow> path \<Rightarrow> js_error + filesystem" where
  "mkdirSync_recursive fs p =
     (if is_file (lookup_path fs p) then Inl (fs_error ''EEXIST'' ''file already exists'' ''mkdir'' p)
      else if list_ex (\<lambda>q. is_file (lookup_path fs q)) (prefixes_of p)
        then Inl (fs_error ''ENOTDIR'' ''not a directory'' ''mkdir'' p)
      else Inr (\<lambda>q. if q \<in> set (prefixes_of p) then Some Dir else fs q))"

text \<open>\<^verbatim>\<open>fs.writeFileSync(p, data, 'utf-8')\<close>\<close>

definition writeFileSync :: "filesystem \<Rightarrow> path \<Rightarrow> string \<Rightarrow> js_error + filesystem" where
  "writeFileSync fs p data =
     (case lookup_path fs p of
        Some Dir \<Rightarrow> Inl (fs_error ''EISDIR'' ''illegal operation on a directory'' ''open'' p)
      | _ \<Rightarrow>
        (case lookup_path fs (butlast p) of
           Some Dir \<Rightarrow> Inr (fs(p \<mapsto> File data))
         | Some (File _) \<Rightarrow> Inl (fs_error ''ENOTDIR'' ''not a directory'' ''open'' p)
         | None \<Rightarrow> Inl (fs_error ''ENOENT'' ''no such file or directory'' ''open'' p)))"

section \<open>Component templates (create-component)\<close>

text \<open>A template literal written line by line: every line ends with a line feed.\<close>

definition unlines :: "string list \<Rightarrow> string" where
  "unlines ls = concat (map (\<lambda>l. l @ ''\<newline>'') ls)"

text \<open>
  \<^verbatim>\<open>name.split('-').map(w => w.charAt(0).toUpperCase() + w.slice(1)).join(' ')\<close>.
  The handler passes the sanitized name only, whose characters are in \<^verbatim>\<open>[a-z0-9-]\<close>, so
  \<^verbatim>\<open>toUpperCase\<close> is modelled on ASCII letters.
\<close>

definition capitalize :: "string \<Rightarrow> string" where
  "capitalize w = (case w of [] \<Rightarrow> [] | c # cs \<Rightarrow> toUpperAscii c # cs)"

definition titleCase :: "string \<Rightarrow> string" where
  "titleCase name = join '' '' (map capitalize (split_on CHR ''-'' name))"

text \<open>\<^verbatim>\<open>content || fallback\<close> for a content that is a string or absent.\<close>

definition content_or :: "string option \<Rightarrow> string \<Rightarrow> string" where
  "content_or content fallback = (if truthy content then str_of content else fallback)"

definition agents_frontmatter :: "string \<Rightarrow> string \<Rightarrow> string" where
  "agents_frontmatter name description = unlines
     [''---'',
      ''name: '' @ name,
      ''description: '' @ description,
      ''tools: Read, Write, Edit, Bash'',
      ''model: sonnet'',
      ''---'',
      '''',
      ''# '' @ titleCase name,
      '''',
      description,
      '''',
      ''## Expertise'',
      ''- Domain-specific knowledge'',
      ''- Key capabilities'',
      ''- Use cases'',
      '''',
      ''## Instructions'',
      ''Detailed instructions for Claude on how to act as this agent.'',
      '''',
      ''## Examples'',
      ''Practical examples of agent usage.'']"

definition commands_frontmatter :: "string \<Rightarrow> string \<Rightarrow> string" where
  "commands_frontmatter name description = unlines
     [''---'',
      ''allowed-tools: Read, Write, Edit, Bash'',
      ''argument-hint: [arguments]'',
      ''description: '' @ description,
      ''---'',
      '''',
      ''# /'' @ name,
      '''',
      description,
      '''',
      ''## Purpose'',
      ''What this command accomplishes.'',
      '''',
      ''## Usage'',
      [CHR 0x60] @ ''/'' @ name @ '' [arguments]'' @ [CHR 0x60],
      '''',
      ''## Implementation'',
      ''Technical details of what the command does.'',
      '''',
      ''## Examples'',
      [CHR 0x60] @ ''/'' @ name @ '' example-usage'' @ [CHR 0x60]]"

definition skills_frontmatter :: "string \<Rightarrow> string \<Rightarrow> string" where
  "skills_frontmatter name description = unlines
     [''---'',
      ''name: '' @ name,
      ''description: '' @ description,
      ''---'',
      '''',
      ''# '' @ titleCase name,
      '''',
      description,
      '''',
      ''## Overview'',
      '''',
      ''[Describe what this skill enables]'',
      '''',
      ''## When to Use'',
      '''',
      ''[Describe when Claude should use this skill]'',
      '''',
      ''## How to Use'',
      '''',
      ''[Describe how Claude should use this skill and its resources]'']"

definition mcps_defaultConfig :: "string \<Rightarrow> string \<Rightarrow> jsval" where
  "mcps_defaultConfig name description =
     JObj [(''mcpServers'', JObj
       [(hyphens_to_underscores name, JObj
          [(''description'', JStr description),
           (''command'', JStr ''npx''),
           (''args'', JArr [JStr ''-y'', JStr ''@your-org/mcp-server'']),
           (''env'', JObj [(''API_KEY'', JStr ''<YOUR_API_KEY>''),
                           (''BASE_URL'', JStr ''https://api.service.com'')])])])]"

definition settings_defaultConfig :: "string \<Rightarrow> jsval" where
  "settings_defaultConfig description =
     JObj [(''description'', JStr description),
           (''env'', JObj [(''SETTING_KEY'', JStr ''default_value'')])]"

definition hooks_defaultConfig :: "string \<Rightarrow> jsval" where
  "hooks_defaultConfig description =
     JObj [(''description'', JStr description),
           (''hooks'', JObj
              [(''PostToolUse'', JArr
                 [JObj [(''matcher'', JStr ''Edit|MultiEdit|Write''),
                        (''hooks'', JArr
                           [JObj [(''type'', JStr ''command''),
                                  (''command'', JStr (''echo '' @ [CHR 0x27] @ ''Hook executed''
                                                      @ [CHR 0x27]))]])]])])]"

text \<open>
  The body shared by the three JSON templates:
  \<^verbatim>\<open>if (content) { try { return JSON.stringify(JSON.parse(content), null, 2); }
      catch (e) { return JSON.stringify(defaultConfig, null, 2); } }
    return JSON.stringify(defaultConfig, null, 2);\<close>
\<close>

definition json_template :: "js_engine \<Rightarrow> jsval \<Rightarrow> string option \<Rightarrow> string" where
  "json_template E defaultConfig content =
     (if truthy content then
        (case JSON_parse E (str_of content) of
           Inr v \<Rightarrow> JSON_stringify E v
         | Inl e \<Rightarrow> JSON_stringify E defaultConfig)
      else JSON_stringify E defaultConfig)"

type_synonym template = "js_engine \<Rightarrow> string \<Rightarrow> string \<Rightarrow> string \<Rightarrow> string option \<Rightarrow> string"

text \<open>
  \<^verbatim>\<open>COMPONENT_TEMPLATES[type]\<close>, with \<open>None\<close> for \<^verbatim>\<open>undefined\<close>. The six own keys are
  modelled; a \<open>type\<close> that names a property inherited from \<^verbatim>\<open>Object.prototype\<close> is outside
  the model.
\<close>

definition COMPONENT_TEMPLATES :: "string \<Rightarrow> template option" where
  "COMPONENT_TEMPLATES t =
     (if t = ''agents'' then
        Some (\<lambda>E name category description content. content_or content (agents_frontmatter name description))
      else if t = ''commands'' then
        Some (\<lambda>E name category description content. content_or content (commands_frontmatter name description))
      else if t = ''mcps'' then
        Some (\<lambda>E name category description content. json_template E (mcps_defaultConfig name description) content)
      else if t = ''settings'' then
        Some (\<lambda>E name category description content. json_template E (settings_defaultConfig description) content)
      else if t = ''hooks'' then
        Some (\<lambda>E name category description content. json_template E (hooks_defaultConfig description) content)
      else if t = ''skills'' then
        Some (\<lambda>E name category description content. content_or content (skills_frontmatter name description))
      else None)"

definition COMPONENT_KEYS :: "string list" where
  "COMPONENT_KEYS = [''agents'', ''commands'', ''mcps'', ''settings'', ''hooks'', ''skills'']"

definition COMPONENT_EXTENSIONS :: "string \<Rightarrow> string" where
  "COMPONENT_EXTENSIONS t =
     (if t = ''agents'' \<or> t = ''commands'' \<or> t = ''skills'' then ''.md'' else ''.json'')"

section \<open>The Persist handler (POST /create-component)\<close>

text \<open>
  What a handler reads from its process: \<^verbatim>\<open>__dirname\<close>, \<^verbatim>\<open>process.cwd()\<close>, two
  environment variables, and the clock (\<^verbatim>\<open>new Date().toISOString()\<close>).
\<close>

record node_env =
  env_dirname :: path
  env_cwd :: path
  env_NODE_ENV :: "string option"
  env_ANTHROPIC_API_KEY :: "string option"
  env_now :: string

text \<open>\<^verbatim>\<open>process.env.NODE_ENV === 'development' ? error.stack : undefined\<close>\<close>

definition details :: "node_env \<Rightarrow> js_error \<Rightarrow> jsval" where
  "details env e = (if env_NODE_ENV env = Some ''development'' then JStr (err_stack e) else JUndefined)"

text \<open>\<^verbatim>\<open>const COMPONENTS_DIR = path.join(__dirname, '..', '..', 'cli-tool', 'components');\<close>\<close>

definition COMPONENTS_DIR :: "node_env \<Rightarrow> path" where
  "COMPONENTS_DIR env = path_join (env_dirname env) [''..'', ''..'', ''cli-tool'', ''components'']"

text \<open>The fields of \<^verbatim>\<open>req.body\<close>, each a string or absent.\<close>

record create_body =
  req_type :: "string option"
  req_category :: "string option"
  req_name :: "string option"
  req_description :: "string option"
  req_content :: "string option"

definition componentDir :: "node_env \<Rightarrow> string \<Rightarrow> string \<Rightarrow> string \<Rightarrow> path" where
  "componentDir env t sanCategory sanName =
     (if t = ''skills'' then path_join (COMPONENTS_DIR env) [t, sanCategory, sanName]
      else path_join (COMPONENTS_DIR env) [t, sanCategory])"

definition filePath :: "node_env \<Rightarrow> string \<Rightarrow> string \<Rightarrow> string \<Rightarrow> path" where
  "filePath env t sanCategory sanName =
     (if t = ''skills'' then path_join (componentDir env t sanCategory sanName) [''SKILL.md'']
      else path_join (componentDir env t sanCategory sanName) [sanName @ COMPONENT_EXTENSIONS t])"

definition create_failed :: "node_env \<Rightarrow> js_error \<Rightarrow> response" where
  "create_failed env e =
     \<lparr>status = 500,
      json = JObj [(''error'', JStr ''Failed to create component''),
                   (''message'', JStr (err_message e)),
                   (''details'', details env e)]\<rparr>"

definition create_handler ::
  "js_engine \<Rightarrow> node_env \<Rightarrow> filesystem \<Rightarrow> string \<Rightarrow> create_body \<Rightarrow> response \<times> filesystem" where
  "create_handler E env fs method body =
     (if method = ''OPTIONS'' then (\<lparr>status = 200, json = JObj [(''ok'', JBool True)]\<rparr>, fs)
      else if method \<noteq> ''POST'' then
        (\<lparr>status = 405, json = JObj [(''error'', JStr ''Method not allowed'')]\<rparr>, fs)
      else if \<not> truthy (req_type body) \<or> \<not> truthy (req_category body)
              \<or> \<not> truthy (req_name body) \<or> \<not> truthy (req_description body) then
        (\<lparr>status = 400,
          json = JObj [(''error'', JStr ''Missing required fields''),
                       (''required'', JArr [JStr ''type'', JStr ''category'', JStr ''name'',
                                            JStr ''description''])]\<rparr>, fs)
      else if str_of (req_type body) = ''plugins'' then
        (\<lparr>status = 400,
          json = JObj [(''error'', JStr ''Plugins must be created manually in .claude-plugin/marketplace.json''),
                       (''note'', JStr ''Plugins are collections of other components, not individual files'')]\<rparr>,
         fs)
      else
        (case COMPONENT_TEMPLATES (str_of (req_type body)) of
           None \<Rightarrow>
             (\<lparr>status = 400,
               json = JObj [(''error'', JStr ''Invalid component type''),
                            (''validTypes'', JArr (map JStr COMPONENT_KEYS))]\<rparr>, fs)
         | Some template \<Rightarrow>
             (let t = str_of (req_type body);
                  sanName = sanitizedName (str_of (req_name body));
                  sanCategory = sanitizedCategory (str_of (req_category body));
                  dir = componentDir env t sanCategory sanName;
                  file = filePath env t sanCategory sanName
              in if existsSync fs file then
                   (\<lparr>status = 409,
                     json = JObj [(''error'', JStr ''Component already exists''),
                                  (''path'', JStr (path_relative (env_cwd env) file))]\<rparr>, fs)
                 else
                   (case (if \<not> existsSync fs dir then mkdirSync_recursive fs dir else Inr fs) of
                      Inl e \<Rightarrow> (create_failed env e, fs)
                    | Inr fs1 \<Rightarrow>
                        (case writeFileSync fs1 file
                                (template E sanName sanCategory (trim (str_of (req_description body)))
                                   (req_content body)) of
                           Inl e \<Rightarrow> (create_failed env e, fs1)
                         | Inr fs2 \<Rightarrow>
                             (\<lparr>status = 201,
                               json = JObj
                                 [(''success'', JBool True),
                                  (''message'', JStr ''Component created successfully''),
                                  (''data'', JObj
                                     [(''type'', JStr t),
                                      (''category'', JStr sanCategory),
                                      (''name'', JStr sanName),
                                      (''path'', JStr (path_relative (env_cwd env) file)),
                                      (''filePath'', JStr (path_string file))])]\<rparr>,
                              fs2))))))"

section \<open>A sample deployment\<close>

text \<open>
  Concrete parameters on which the handlers are evaluated: an engine whose parser accepts the
  empty object only, and the handler file installed in \<^verbatim>\<open>/app/api/admin\<close> with the process
  started in \<^verbatim>\<open>/app\<close>.
\<close>

definition sample_engine :: js_engine where
  "sample_engine =
     \<lparr>JSON_parse = (\<lambda>s. if s = ''{}'' then Inr (JObj []) else Inl ''Unexpected token in JSON''),
      JSON_stringify = (\<lambda>v. if v = JObj [] then ''{}'' else ''{ ... }''),
      TypeError_message = (\<lambda>v p. ''Cannot access property '' @ p)\<rparr>"

definition sample_env :: node_env where
  "sample_env = \<lparr>env_dirname = [''app'', ''api'', ''admin''], env_cwd = [''app''],
     env_NODE_ENV = None, env_ANTHROPIC_API_KEY = None, env_now = ''2025-01-01T00:00:00.000Z''\<rparr>"

definition dev_team_request :: create_body where
  "dev_team_request =
     \<lparr>req_type = Some ''agents'', req_category = Some ''Dev Team!'', req_name = Some ''My Agent'',
      req_description = Some ''x'', req_content = None\<rparr>"

section \<open>Outcomes of the Persist handler\<close>

text \<open>The two responses the existence check chooses between, and the directories made on the way.\<close>

definition created :: "node_env \<Rightarrow> string \<Rightarrow> string \<Rightarrow> string \<Rightarrow> response" where
  "created env t c n =
     \<lparr>status = 201,
      json = JObj
        [(''success'', JBool True),
         (''message'', JStr ''Component created successfully''),
         (''data'', JObj
            [(''type'', JStr t),
             (''category'', JStr c),
             (''name'', JStr n),
             (''path'', JStr (path_relative (env_cwd env) (filePath env t c n))),
             (''filePath'', JStr (path_string (filePath env t c n)))])]\<rparr>"










section \<open>The Regenerate handler (POST /regenerate-catalog)\<close>

text \<open>
  The module imports \<^verbatim>\<open>execSync\<close>, \<^verbatim>\<open>path\<close> and \<^verbatim>\<open>fileURLToPath\<close> and declares
  \<^verbatim>\<open>__filename\<close>, \<^verbatim>\<open>__dirname\<close> and \<^verbatim>\<open>handler\<close>; \<^verbatim>\<open>console\<close> and \<^verbatim>\<open>process\<close> are globals
  of Node. Evaluating an identifier that is bound nowhere throws a \<^verbatim>\<open>ReferenceError\<close>.
\<close>

definition regenerate_scope :: "string list" where
  "regenerate_scope = [''execSync'', ''path'', ''fileURLToPath'', ''__filename'', ''__dirname'',
     ''handler'', ''console'', ''process'']"

definition resolve_identifier :: "string list \<Rightarrow> string \<Rightarrow> js_error + unit" where
  "resolve_identifier scope x =
     (if x \<in> set scope then Inr ()
      else Inl ((Error (x @ '' is not defined''))\<lparr>err_stack := ''ReferenceError: '' @ x @ '' is not defined''\<rparr>))"

text \<open>\<^verbatim>\<open>a || b\<close> on strings that may be absent.\<close>

definition or_else :: "string option \<Rightarrow> string \<Rightarrow> string" where
  "or_else a b = (if truthy a then str_of a else b)"

definition regenerate_failed :: "node_env \<Rightarrow> js_error \<Rightarrow> response" where
  "regenerate_failed env e =
     \<lparr>status = 500,
      json = JObj [(''error'', JStr ''Failed to regenerate catalog''),
                   (''message'', JStr (or_else (err_stderr e) (or_else (Some (err_message e)) ''Unknown error''))),
                   (''details'', details env e)]\<rparr>"

text \<open>
  \<open>exec\<close> is \<^verbatim>\<open>execSync\<close> with the handler's options: from the command line to the captured
  standard output, or \<open>Inl\<close> the error thrown on a non-zero exit or on the 60 second timeout.
\<close>

definition regenerate_handler ::
  "node_env \<Rightarrow> (string \<Rightarrow> js_error + string) \<Rightarrow> filesystem \<Rightarrow> string \<Rightarrow> response" where
  "regenerate_handler env exec fs method =
     (if method = ''OPTIONS'' then \<lparr>status = 200, json = JObj [(''ok'', JBool True)]\<rparr>
      else if method \<noteq> ''POST'' then
        \<lparr>status = 405, json = JObj [(''error'', JStr ''Method not allowed'')]\<rparr>
      else
        (let projectRoot = path_join (env_dirname env) [''..'', ''..''];
             scriptPath = path_join projectRoot [''generate_components_json.py'']
         in case resolve_identifier regenerate_scope ''fs'' of
              Inl e \<Rightarrow> regenerate_failed env e
            | Inr _ \<Rightarrow>
                if \<not> existsSync fs scriptPath then
                  \<lparr>status = 404,
                   json = JObj [(''error'', JStr ''Catalog generation script not found''),
                                (''path'', JStr (path_string scriptPath))]\<rparr>
                else
                  (case exec (''python3 '' @ [CHR 0x22] @ path_string scriptPath @ [CHR 0x22]) of
                     Inl e \<Rightarrow> regenerate_failed env e
                   | Inr output \<Rightarrow>
                       \<lparr>status = 200,
                        json = JObj
                          [(''success'', JBool True),
                           (''message'', JStr ''Catalog regenerated successfully''),
                           (''output'', JArr (map JStr (slice_last 20 (split_on CHR 0x0A output))))]\<rparr>)))"

section \<open>Scraped content\<close>

text \<open>
  \<^verbatim>\<open>extractedContent\<close>: title, description, content, code blocks (language and content), the
  open metadata object as an association list in insertion order, and the AI analysis added at
  the end of a scrape.
\<close>

record scraped =
  sc_title :: string
  sc_description :: string
  sc_content :: string
  sc_codeBlocks :: "(string \<times> string) list"
  sc_metadata :: "(string \<times> jsval) list"
  sc_aiAnalysis :: "jsval option"

text \<open>\<^verbatim>\<open>obj[key] = value\<close>: an existing key keeps its place, a new key goes last.\<close>

fun set_key :: "string \<Rightarrow> jsval \<Rightarrow> (string \<times> jsval) list \<Rightarrow> (string \<times> jsval) list" where
  "set_key k v [] = [(k, v)]"
| "set_key k v ((k', v') # kvs) = (if k' = k then (k, v) # kvs else (k', v') # set_key k v kvs)"

definition get_key :: "(string \<times> jsval) list \<Rightarrow> string \<Rightarrow> jsval" where
  "get_key kvs k = (case map_of kvs k of Some v \<Rightarrow> v | None \<Rightarrow> JUndefined)"

section \<open>The Classifier (ai-analyzer)\<close>

text \<open>
  The reply of \<^verbatim>\<open>anthropic.messages.create\<close>: the texts of its content blocks and
  \<^verbatim>\<open>usage.output_tokens\<close>. The call itself is a parameter of the analyzer: \<open>Inl\<close> the error
  it throws (network, authentication, quota), or \<open>Inr\<close> the reply. The prompt is built from the
  scraped data and fixed documentation; since the reply is arbitrary, the prompt is not
  modelled.
\<close>

record ai_message =
  msg_content :: "string list"
  msg_output_tokens :: "nat option"

text \<open>
  \<^verbatim>\<open>responseText.match(/```(?:json)?\n([\s\S]*?)\n```/)\<close>: the first capture group of the
  leftmost match. \<open>lazy_until pat s\<close> is the shortest prefix of \<open>s\<close> that is followed by
  \<open>pat\<close>.
\<close>

fun lazy_until :: "string \<Rightarrow> string \<Rightarrow> string option" where
  "lazy_until pat [] = (if pat = [] then Some [] else None)"
| "lazy_until pat (c # cs) =
     (if startsWith (c # cs) pat then Some [] else map_option ((#) c) (lazy_until pat cs))"

definition fence :: string where
  "fence = [CHR 0x60, CHR 0x60, CHR 0x60]"

definition fence_at :: "string \<Rightarrow> string option" where
  "fence_at s =
     (if startsWith s fence then
        (let r = drop 3 s;
             r1 = (if startsWith r ''json'' then drop 4 r else r)
         in if startsWith r1 ''\<newline>'' then lazy_until (''\<newline>'' @ fence) (drop 1 r1) else None)
      else None)"

fun fence_match :: "string \<Rightarrow> string option" where
  "fence_match [] = fence_at []"
| "fence_match (c # cs) =
     (case fence_at (c # cs) of Some body \<Rightarrow> Some body | None \<Rightarrow> fence_match cs)"

text \<open>The text handed to \<^verbatim>\<open>JSON.parse\<close>: the inside of a code fence when the reply starts with one.\<close>

definition jsonText :: "string \<Rightarrow> string" where
  "jsonText responseText =
     (if startsWith responseText fence then
        (case fence_match responseText of Some body \<Rightarrow> body | None \<Rightarrow> responseText)
      else responseText)"

text \<open>
  The \<^verbatim>\<open>try\<close> block of \<^verbatim>\<open>analyzeScrapedContent\<close>: one model call, the text of the first
  content block, an optional code fence, \<^verbatim>\<open>JSON.parse\<close>, and the \<^verbatim>\<open>metadata\<close> property set
  on the parsed value. The module is strict code, so setting a property on \<^verbatim>\<open>null\<close> or on a
  primitive throws; an array takes the property, which serialisation drops.
\<close>

definition analysis_metadata :: "node_env \<Rightarrow> ai_message \<Rightarrow> jsval" where
  "analysis_metadata env message =
     JObj [(''analyzedAt'', JStr (env_now env)),
           (''model'', JStr ''claude-3-5-sonnet-20241022''),
           (''tokensUsed'', JNum (case msg_output_tokens message of Some n \<Rightarrow> int n | None \<Rightarrow> 0))]"

definition try_analysis ::
  "js_engine \<Rightarrow> node_env \<Rightarrow> js_error + ai_message \<Rightarrow> js_error + jsval" where
  "try_analysis E env reply =
     (case reply of
        Inl e \<Rightarrow> Inl e
      | Inr message \<Rightarrow>
          (case msg_content message of
             [] \<Rightarrow> Inl (Error (TypeError_message E JUndefined ''text''))
           | text # _ \<Rightarrow>
               (let responseText = trim text
                in case JSON_parse E (jsonText responseText) of
                     Inl msg \<Rightarrow> Inl (Error msg)
                   | Inr (JObj kvs) \<Rightarrow> Inr (JObj (set_key ''metadata'' (analysis_metadata env message) kvs))
                   | Inr (JArr xs) \<Rightarrow> Inr (JArr xs)
                   | Inr v \<Rightarrow> Inl (Error (TypeError_message E v ''metadata'')))))"

text \<open>The object returned by the \<^verbatim>\<open>catch\<close> block.\<close>

definition fallback_analysis :: "scraped \<Rightarrow> js_error \<Rightarrow> jsval" where
  "fallback_analysis scrapedData e =
     JObj [(''suggestedComponentType'', JStr ''agents''),
           (''confidence'', JNum 0),
           (''suggestedCategory'', JStr ''general''),
           (''suggestedName'', JStr ''component''),
           (''extractedMetadata'', JObj
              [(''description'', JStr (or_else (Some (sc_description scrapedData))
                                        ''Component extracted from scraped content'')),
               (''purpose'', JStr ''Purpose not determined''),
               (''features'', JArr []),
               (''tools'', JArr [])]),
           (''repositoryInsights'', JObj []),
           (''validation'', JObj
              [(''dataQuality'', JStr ''low''),
               (''missingFields'', JArr [JStr ''AI analysis failed'']),
               (''recommendations'', JArr [JStr ''Review content manually'']),
               (''warnings'', JArr [JStr (''AI analysis failed: '' @ err_message e)])]),
           (''reasoning'', JStr ''AI analysis encountered an error, using fallback values''),
           (''error'', JStr (err_message e))]"

definition analyzeScrapedContent ::
  "js_engine \<Rightarrow> node_env \<Rightarrow> js_error + ai_message \<Rightarrow> scraped \<Rightarrow> js_error + jsval" where
  "analyzeScrapedContent E env reply scrapedData =
     (if \<not> truthy (env_ANTHROPIC_API_KEY env) then Inl (Error ''ANTHROPIC_API_KEY not configured'')
      else
        (case try_analysis E env reply of
           Inr analysis \<Rightarrow> Inr analysis
         | Inl e \<Rightarrow> Inr (fallback_analysis scrapedData e)))"



section \<open>Regular expressions of the scraper\<close>

text \<open>
  The path patterns are sequences of literals, segments \<^verbatim>\<open>[^\/]+\<close> and a final \<^verbatim>\<open>(.+)\<close>.
  In every pattern used a segment is followed by a literal that starts with \<^verbatim>\<open>/\<close> or it
  ends the pattern, so the greedy match is the maximal run without \<^verbatim>\<open>/\<close>; \<^verbatim>\<open>.+\<close> runs up
  to the first line terminator. \<open>match_here\<close> matches at the start of the string and returns
  what the segments and the rest matched, in order; \<open>match_search\<close> finds the leftmost match,
  trying the alternatives in order at each position, as \<^verbatim>\<open>String.prototype.match\<close> does.
\<close>

datatype pat = Lit string | Seg | Rest

fun match_here :: "pat list \<Rightarrow> string \<Rightarrow> string list option" where
  "match_here [] s = Some []"
| "match_here (Lit l # ps) s =
     (if startsWith s l then match_here ps (drop (length l) s) else None)"
| "match_here (Seg # ps) s =
     (let seg = takeWhile (\<lambda>c. c \<noteq> CHR ''/'') s
      in if seg = [] then None
         else map_option ((#) seg) (match_here ps (dropWhile (\<lambda>c. c \<noteq> CHR ''/'') s)))"
| "match_here (Rest # ps) s =
     (let r = takeWhile (\<lambda>c. \<not> isLineTerminator c) s
      in if r = [] then None
         else map_option ((#) r) (match_here ps (dropWhile (\<lambda>c. \<not> isLineTerminator c) s)))"

fun first_match :: "pat list list \<Rightarrow> string \<Rightarrow> string list option" where
  "first_match [] s = None"
| "first_match (p # alts) s =
     (case match_here p s of Some g \<Rightarrow> Some g | None \<Rightarrow> first_match alts s)"

fun match_search :: "pat list list \<Rightarrow> string \<Rightarrow> string list option" where
  "match_search alts [] = first_match alts []"
| "match_search alts (c # cs) =
     (case first_match alts (c # cs) of Some g \<Rightarrow> Some g | None \<Rightarrow> match_search alts cs)"

text \<open>\<^verbatim>\<open>/\/([^\/]+)\/([^\/]+)\/([^\/]+)\/(.+)/\<close>\<close>

definition raw_pattern :: "pat list" where
  "raw_pattern = [Lit ''/'', Seg, Lit ''/'', Seg, Lit ''/'', Seg, Lit ''/'', Rest]"

text \<open>\<^verbatim>\<open>/\/([^\/]+)\/([^\/]+)/\<close>\<close>

definition repo_pattern :: "pat list" where
  "repo_pattern = [Lit ''/'', Seg, Lit ''/'', Seg]"

text \<open>\<^verbatim>\<open>/\/[^\/]+\/[^\/]+\/blob\/[^\/]+\/(.+)/\<close>; the capture is the last element of the result.\<close>

definition blob_path_pattern :: "pat list" where
  "blob_path_pattern = [Lit ''/'', Seg, Lit ''/'', Seg, Lit ''/blob/'', Seg, Lit ''/'', Rest]"

text \<open>\<^verbatim>\<open>/\/blob\/([^\/]+)/\<close>\<close>

definition branch_pattern :: "pat list" where
  "branch_pattern = [Lit ''/blob/'', Seg]"

text \<open>\<^verbatim>\<open>/\/(blob|tree)\/[^\/]+\/(.+)/\<close>; the second capture is the last element of the result.\<close>

definition href_patterns :: "pat list list" where
  "href_patterns = [[Lit ''/blob/'', Seg, Lit ''/'', Rest], [Lit ''/tree/'', Seg, Lit ''/'', Rest]]"

text \<open>
  \<^verbatim>\<open>/language-(\w+)/\<close> and \<^verbatim>\<open>/highlight-source-(\w+)/\<close>: the word after the leftmost
  occurrence of the prefix that is followed by a word character.
\<close>

fun word_after :: "string \<Rightarrow> string \<Rightarrow> string option" where
  "word_after p [] = None"
| "word_after p (c # cs) =
     (if startsWith (c # cs) p \<and> takeWhile isWordChar (drop (length p) (c # cs)) \<noteq> []
      then Some (takeWhile isWordChar (drop (length p) (c # cs)))
      else word_after p cs)"

text \<open>\<^verbatim>\<open>s.endsWith(p)\<close>\<close>

definition endsWith :: "string \<Rightarrow> string \<Rightarrow> bool" where
  "endsWith s p = startsWith (rev s) (rev p)"

text \<open>\<^verbatim>\<open>a || b\<close> where \<open>a\<close> may be absent (\<^verbatim>\<open>null\<close> or \<^verbatim>\<open>undefined\<close>) and \<open>b\<close> may too.\<close>

definition or_opt :: "string option \<Rightarrow> string option \<Rightarrow> string option" where
  "or_opt a b = (if truthy a then a else b)"

text \<open>The decimal numeral of a natural number.\<close>

fun decimal :: "nat \<Rightarrow> string" where
  "decimal n = (if n < 10 then [char_of (48 + n)] else decimal (n div 10) @ [char_of (48 + n mod 10)])"

declare decimal.simps [simp del]

section \<open>The libraries of the scraper: URL, axios, jsdom\<close>

text \<open>
  What the network gives for one GET: a response, or a failure without a response (DNS,
  refused connection, timeout, too many redirects, body over the size limit).
\<close>

record http_response =
  hr_status :: nat
  hr_statusText :: string
  hr_contentType :: "string option"
  hr_data :: jsval

record net_error =
  ne_code :: "string option"
  ne_message :: string

text \<open>
  The libraries are parameters. \<open>URL_parse\<close> is \<^verbatim>\<open>new URL(url)\<close>, giving hostname and
  pathname, or \<open>None\<close> where it throws. \<open>net url timeout\<close> is the outcome of the GET that axios
  sends. \<open>JSDOM\<close> parses the response data into a document. The other fields are the DOM
  operations on nodes of type \<open>'n\<close>; \<open>clone_without n sel\<close> is \<^verbatim>\<open>n.cloneNode(true)\<close> with
  every element matching \<open>sel\<close> removed from the clone. All elements are taken to be HTML
  elements, whose \<^verbatim>\<open>className\<close> and \<^verbatim>\<open>textContent\<close> are strings.
\<close>

record 'n libs =
  URL_parse :: "string \<Rightarrow> (string \<times> string) option"
  net :: "string \<Rightarrow> nat \<Rightarrow> net_error + http_response"
  JSDOM :: "jsval \<Rightarrow> 'n"
  querySelector :: "'n \<Rightarrow> string \<Rightarrow> 'n option"
  querySelectorAll :: "'n \<Rightarrow> string \<Rightarrow> 'n list"
  textContent :: "'n \<Rightarrow> string"
  getAttribute :: "'n \<Rightarrow> string \<Rightarrow> string option"
  className :: "'n \<Rightarrow> string"
  tagName :: "'n \<Rightarrow> string"
  element_id :: "'n \<Rightarrow> string"
  closest :: "'n \<Rightarrow> string \<Rightarrow> 'n option"
  clone_without :: "'n \<Rightarrow> string \<Rightarrow> 'n"

text \<open>
  \<^verbatim>\<open>axios.get\<close> resolves with the response when \<^verbatim>\<open>validateStatus\<close> accepts its status and
  rejects with an error that carries the response otherwise; a network failure is rejected
  without a response.
\<close>

definition axios_get :: "(nat \<Rightarrow> bool) \<Rightarrow> net_error + http_response \<Rightarrow> js_error + http_response" where
  "axios_get validateStatus outcome =
     (case outcome of
        Inl ne \<Rightarrow> Inl ((Error (ne_message ne))\<lparr>err_code := ne_code ne\<rparr>)
      | Inr r \<Rightarrow>
          if validateStatus (hr_status r) then Inr r
          else Inl ((Error (''Request failed with status code '' @ decimal (hr_status r)))
                      \<lparr>err_response := Some (hr_status r, hr_statusText r)\<rparr>))"

text \<open>The first of several \<^verbatim>\<open>querySelector\<close> calls joined by \<^verbatim>\<open>||\<close> that finds an element.\<close>

fun first_selected :: "'n libs \<Rightarrow> 'n \<Rightarrow> string list \<Rightarrow> 'n option" where
  "first_selected W d [] = None"
| "first_selected W d (sel # sels) =
     (case querySelector W d sel of Some n \<Rightarrow> Some n | None \<Rightarrow> first_selected W d sels)"

text \<open>\<^verbatim>\<open>el.textContent?.trim() || ''\<close>\<close>

definition trimmed_text :: "'n libs \<Rightarrow> 'n \<Rightarrow> string" where
  "trimmed_text W n = trim (textContent W n)"

text \<open>
  \<^verbatim>\<open>response.data && typeof response.data === 'string' && !response.data.includes('<!DOCTYPE')\<close>:
  the string when the test holds.
\<close>

definition raw_text :: "jsval \<Rightarrow> string option" where
  "raw_text v = (case v of JStr s \<Rightarrow> (if s \<noteq> [] \<and> \<not> str_includes s ''<!DOCTYPE'' then Some s else None)
                 | _ \<Rightarrow> None)"

section \<open>The Scrape handler (POST /scrape-url): generic extraction\<close>

text \<open>
  The language of a code element of the main content:
  \<^verbatim>\<open>classMatch?.[1] || langAttr || preClassMatch?.[1] || 'text'\<close>, lower-cased.
\<close>

definition code_language :: "'n libs \<Rightarrow> 'n \<Rightarrow> string" where
  "code_language W c =
     (let classMatch = word_after ''language-'' (className W c);
          langAttr = or_opt (getAttribute W c ''data-lang'') (getAttribute W c ''lang'');
          preClassMatch = (case closest W c ''pre'' of
                             None \<Rightarrow> None
                           | Some parentPre \<Rightarrow> word_after ''language-'' (className W parentPre))
      in toLowerCase (or_else (or_opt classMatch (or_opt langAttr preClassMatch)) ''text''))"

definition main_codeBlocks :: "'n libs \<Rightarrow> 'n \<Rightarrow> (string \<times> string) list" where
  "main_codeBlocks W contentClone =
     map (\<lambda>c. (code_language W c, trimmed_text W c))
       (filter (\<lambda>c. length (trimmed_text W c) > 0) (querySelectorAll W contentClone ''pre code, code''))"

text \<open>
  \<^verbatim>\<open>parseInt(h.tagName.charAt(1))\<close>: the digit after the first character of the tag name;
  \<^verbatim>\<open>NaN\<close>, which serialises to \<^verbatim>\<open>null\<close>, when there is none.
\<close>

definition heading_level :: "string \<Rightarrow> jsval" where
  "heading_level tag =
     (case tag of
        _ # d # _ \<Rightarrow> (if 48 \<le> codeUnit d \<and> codeUnit d \<le> 57 then JNum (int (codeUnit d) - 48) else JNull)
      | _ \<Rightarrow> JNull)"

definition heading_entry :: "'n libs \<Rightarrow> 'n \<Rightarrow> jsval" where
  "heading_entry W h = JObj [(''level'', heading_level (tagName W h)), (''text'', JStr (trimmed_text W h))]"

definition link_entry :: "'n libs \<Rightarrow> 'n \<Rightarrow> jsval" where
  "link_entry W a =
     JObj [(''text'', JStr (trimmed_text W a)), (''href'', JStr (or_else (getAttribute W a ''href'') ''''))]"

definition removed_from_main :: string where
  "removed_from_main = ''script, style, nav, header, footer, .nav, .navigation, .sidebar, .menu, ''
     @ ''.advertisement, .ads, .social-share, .comments, .related-posts''"

definition main_selectors :: "string list" where
  "main_selectors = [''main'', ''article'', ''.content'', ''.markdown-body'', ''#readme'', ''body'']"

text \<open>
  Lines 59 to 142: title, description, main content, code blocks, and the headings and links
  stored into \<^verbatim>\<open>extractedContent.metadata\<close>, which is still the empty object created at the
  start.
\<close>

definition extract_page :: "'n libs \<Rightarrow> 'n \<Rightarrow> scraped" where
  "extract_page W document =
     (let extractedContent =
            \<lparr>sc_title = (case first_selected W document [''title'', ''h1'', ''h2''] of
                           None \<Rightarrow> [] | Some titleElement \<Rightarrow> trimmed_text W titleElement),
             sc_description =
               (case querySelector W document (''meta[name='' @ [CHR 0x22] @ ''description'' @ [CHR 0x22] @ '']'') of
                  None \<Rightarrow> []
                | Some metaDescription \<Rightarrow> or_else (getAttribute W metaDescription ''content'') []),
             sc_content = [], sc_codeBlocks = [], sc_metadata = [], sc_aiAnalysis = None\<rparr>
      in case first_selected W document main_selectors of
           None \<Rightarrow> extractedContent
         | Some mainContent \<Rightarrow>
             (let contentClone = clone_without W mainContent removed_from_main;
                  headings = querySelectorAll W contentClone ''h1, h2, h3, h4, h5, h6'';
                  links = querySelectorAll W contentClone ''a[href]'';
                  md1 = (if length headings > 0
                         then set_key ''headings'' (JArr (map (heading_entry W) headings)) []
                         else []);
                  md2 = (if length links > 0
                         then set_key ''links'' (JArr (map (link_entry W) (take 20 links))) md1
                         else md1)
              in extractedContent
                   \<lparr>sc_content := trimmed_text W contentClone,
                    sc_codeBlocks := main_codeBlocks W contentClone,
                    sc_metadata := md2\<rparr>))"

text \<open>
  Lines 144 to 150, \<^verbatim>\<open>// Initialize metadata\<close>: the metadata object is replaced by a new
  object of four fields. An absent content type is \<^verbatim>\<open>undefined\<close>.
\<close>

definition initial_metadata :: "node_env \<Rightarrow> string \<Rightarrow> string \<Rightarrow> http_response \<Rightarrow> (string \<times> jsval) list" where
  "initial_metadata env url hostname response =
     [(''url'', JStr url),
      (''domain'', JStr hostname),
      (''contentType'', (case hr_contentType response of None \<Rightarrow> JUndefined | Some ct \<Rightarrow> JStr ct)),
      (''scrapedAt'', JStr (env_now env))]"

definition set_meta :: "string \<Rightarrow> jsval \<Rightarrow> scraped \<Rightarrow> scraped" where
  "set_meta k v ec = ec\<lparr>sc_metadata := set_key k v (sc_metadata ec)\<rparr>"

section \<open>The Scrape handler: GitHub\<close>

text \<open>\<^verbatim>\<open>s.split('.').pop()\<close>\<close>

definition fileExtension :: "string \<Rightarrow> string" where
  "fileExtension p = last (split_on CHR ''.'' p)"

text \<open>Lines 160 to 177: a URL of \<^verbatim>\<open>raw.githubusercontent.com\<close>.\<close>

definition github_raw :: "string \<Rightarrow> http_response \<Rightarrow> scraped \<Rightarrow> scraped" where
  "github_raw pathname response ec =
     (case match_search [raw_pattern] pathname of
        Some [owner, name, branch, file] \<Rightarrow>
          (let ec1 = set_meta ''isRaw'' (JBool True)
                       (set_meta ''fileExtension'' (JStr (fileExtension file))
                         (set_meta ''filePath'' (JStr file)
                           (set_meta ''branch'' (JStr branch)
                             (set_meta ''repository'' (JObj [(''owner'', JStr owner), (''name'', JStr name)]) ec))))
           in case raw_text (hr_data response) of
                Some body \<Rightarrow> set_meta ''rawContent'' (JBool True) (ec1\<lparr>sc_content := body\<rparr>)
              | None \<Rightarrow> ec1)
      | _ \<Rightarrow> ec)"

text \<open>
  Lines 181 to 206: repository, file path, raw URL and branch of a \<^verbatim>\<open>github.com\<close> URL. The
  raw URL reads \<^verbatim>\<open>metadata.repository.owner\<close>, which throws when the repository was not set.
\<close>

definition set_repository :: "string \<Rightarrow> scraped \<Rightarrow> scraped" where
  "set_repository pathname ec =
     (case match_search [repo_pattern] pathname of
        Some [owner, name] \<Rightarrow>
          set_meta ''repository'' (JObj [(''owner'', JStr owner), (''name'', JStr name)]) ec
      | _ \<Rightarrow> ec)"

definition set_branch :: "string \<Rightarrow> scraped \<Rightarrow> scraped" where
  "set_branch pathname ec =
     (case match_search [branch_pattern] pathname of
        Some [b] \<Rightarrow> set_meta ''branch'' (JStr b) ec
      | _ \<Rightarrow> ec)"

text \<open>\<^verbatim>\<open>branchMatch ? branchMatch[1] : 'main'\<close>\<close>

definition blob_branch :: "string \<Rightarrow> string" where
  "blob_branch pathname =
     (case match_search [branch_pattern] pathname of Some [b] \<Rightarrow> b | _ \<Rightarrow> ''main'')"

text \<open>A template substitution prints a missing property as \<^verbatim>\<open>undefined\<close>.\<close>

definition interpolate :: "jsval \<Rightarrow> string" where
  "interpolate v = (case v of JStr s \<Rightarrow> s | _ \<Rightarrow> ''undefined'')"

definition github_paths :: "js_engine \<Rightarrow> string \<Rightarrow> scraped \<Rightarrow> js_error + scraped" where
  "github_paths E pathname ec =
     (let ec1 = set_repository pathname ec
      in case match_search [blob_path_pattern] pathname of
           Some groups \<Rightarrow>
             (let file = last groups;
                  ec2 = set_meta ''fileExtension'' (JStr (fileExtension file))
                          (set_meta ''filePath'' (JStr file) ec1)
              in case get_key (sc_metadata ec2) ''repository'' of
                   JObj repo \<Rightarrow>
                     Inr (set_branch pathname
                            (set_meta ''rawUrl''
                               (JStr (''https://raw.githubusercontent.com/''
                                      @ interpolate (get_key repo ''owner'') @ ''/''
                                      @ interpolate (get_key repo ''name'') @ ''/''
                                      @ blob_branch pathname @ ''/'' @ file))
                               ec2))
                 | v \<Rightarrow> Inl (Error (TypeError_message E v ''owner'')))
         | None \<Rightarrow> Inr (set_branch pathname ec1))"

text \<open>Lines 209 to 232: the entries of a repository root page.\<close>

definition fileLinks_selector :: string where
  "fileLinks_selector = ''a[href*='' @ [CHR 0x22] @ ''/blob/'' @ [CHR 0x22] @ ''], a[href*=''
     @ [CHR 0x22] @ ''/tree/'' @ [CHR 0x22] @ '']''"

definition structure_entry :: "'n libs \<Rightarrow> 'n \<Rightarrow> string \<Rightarrow> string \<times> jsval" where
  "structure_entry W link href =
     (let path = (case match_search href_patterns href of Some groups \<Rightarrow> last groups | None \<Rightarrow> [])
      in (path,
          JObj [(''name'', JStr (trimmed_text W link)),
                (''path'', JStr path),
                (''type'', JStr (if str_includes href ''/blob/'' then ''file'' else ''directory'')),
                (''url'', JStr (if startsWith href ''http'' then href else ''https://github.com'' @ href))]))"

fun structure_entries :: "js_engine \<Rightarrow> 'n libs \<Rightarrow> 'n list \<Rightarrow> js_error + (string \<times> jsval) list" where
  "structure_entries E W [] = Inr []"
| "structure_entries E W (link # links) =
     (case getAttribute W link ''href'' of
        None \<Rightarrow> Inl (Error (TypeError_message E JNull ''includes''))
      | Some href \<Rightarrow>
          (case structure_entries E W links of
             Inl e \<Rightarrow> Inl e
           | Inr es \<Rightarrow> Inr (structure_entry W link href # es)))"

definition github_root :: "js_engine \<Rightarrow> 'n libs \<Rightarrow> 'n \<Rightarrow> string \<Rightarrow> scraped \<Rightarrow> js_error + scraped" where
  "github_root E W document pathname ec =
     (if \<not> str_includes pathname ''/blob/'' \<and> \<not> str_includes pathname ''/tree/'' then
        (let ec1 = set_meta ''isRepoRoot'' (JBool True) ec;
             fileLinks = querySelectorAll W document fileLinks_selector
         in if length fileLinks > 0 then
              (case structure_entries E W (take 50 fileLinks) of
                 Inl e \<Rightarrow> Inl e
               | Inr es \<Rightarrow>
                   Inr (set_meta ''repoStructure''
                          (JArr (map snd (filter (\<lambda>(path, item). path \<noteq> []) es))) ec1))
            else Inr ec1)
      else Inr ec)"

text \<open>Lines 235 to 237.\<close>

definition github_readme :: "string \<Rightarrow> scraped \<Rightarrow> scraped" where
  "github_readme pathname ec =
     (if str_includes pathname ''/blob/'' \<and> str_includes (toLowerCase pathname) ''readme''
      then set_meta ''isReadme'' (JBool True) ec else ec)"

text \<open>Lines 240 to 278: the rendered markdown of the page.\<close>

definition markdown_language :: "'n libs \<Rightarrow> 'n \<Rightarrow> string" where
  "markdown_language W c =
     (let classMatch = word_after ''language-'' (className W c);
          langAttr = getAttribute W c ''data-lang'';
          preClassMatch = (case closest W c ''pre'' of
                             None \<Rightarrow> None
                           | Some parentPre \<Rightarrow> word_after ''language-'' (className W parentPre));
          highlightMatch = (case closest W c ''.highlight'' of
                              None \<Rightarrow> None
                            | Some hl \<Rightarrow> word_after ''highlight-source-'' (className W hl))
      in toLowerCase (or_else (or_opt classMatch (or_opt langAttr (or_opt preClassMatch highlightMatch)))
                        ''text''))"

definition markdown_selectors :: "string list" where
  "markdown_selectors = [''.markdown-body'',
     ''[data-target='' @ [CHR 0x22] @ ''readme-toc.content'' @ [CHR 0x22] @ '']'', ''.Box-body'']"

definition github_markdown :: "'n libs \<Rightarrow> 'n \<Rightarrow> scraped \<Rightarrow> scraped" where
  "github_markdown W document ec =
     (case first_selected W document markdown_selectors of
        None \<Rightarrow> ec
      | Some markdownBody \<Rightarrow>
          (let markdownContent = clone_without W markdownBody ''script, style, .markdown-toc, .toc, nav'';
               markdownText = trimmed_text W markdownContent;
               ec1 = (if length markdownText > length (sc_content ec)
                      then ec\<lparr>sc_content := markdownText\<rparr> else ec);
               mdCodeBlocks = querySelectorAll W markdownContent ''pre code, .highlight pre code'';
               extractedBlocks = filter (\<lambda>(l, c). length c > 0)
                                   (map (\<lambda>c. (markdown_language W c, trimmed_text W c)) mdCodeBlocks)
           in if length mdCodeBlocks > 0 \<and> length extractedBlocks > 0
              then ec1\<lparr>sc_codeBlocks := extractedBlocks\<rparr> else ec1))"

text \<open>
  Lines 280 to 299: the raw-content fallback. It returns the content and the URLs it fetched.
  The request uses the default \<^verbatim>\<open>validateStatus\<close> of axios (status 200 to 299) and a timeout
  of 10 seconds; its \<^verbatim>\<open>catch\<close> block only logs.
\<close>

definition raw_fallback :: "'n libs \<Rightarrow> scraped \<Rightarrow> scraped \<times> string list" where
  "raw_fallback W ec =
     (case get_key (sc_metadata ec) ''rawUrl'' of
        JStr rawUrl \<Rightarrow>
          (if length (sc_content ec) < 500 \<and> rawUrl \<noteq> [] then
             (case axios_get (\<lambda>s. 200 \<le> s \<and> s < 300) (net W rawUrl 10000) of
                Inr rawResponse \<Rightarrow>
                  (case raw_text (hr_data rawResponse) of
                     Some body \<Rightarrow>
                       (set_meta ''rawContentFetched'' (JBool True) (ec\<lparr>sc_content := body\<rparr>), [rawUrl])
                   | None \<Rightarrow> (ec, [rawUrl]))
              | Inl rawError \<Rightarrow> (ec, [rawUrl]))
           else (ec, []))
      | _ \<Rightarrow> (ec, []))"

text \<open>
  Lines 181 to 278: what the \<^verbatim>\<open>github.com\<close> branch does before the fallback. Its result
  is the extracted content on which the fallback decides.
\<close>

definition pre_fallback ::
  "js_engine \<Rightarrow> 'n libs \<Rightarrow> 'n \<Rightarrow> string \<Rightarrow> scraped \<Rightarrow> js_error + scraped" where
  "pre_fallback E W document pathname ec0 =
     (case github_paths E pathname ec0 of
        Inl e \<Rightarrow> Inl e
      | Inr ec1 \<Rightarrow>
          (case github_root E W document pathname ec1 of
             Inl e \<Rightarrow> Inl e
           | Inr ec2 \<Rightarrow> Inr (github_markdown W document (github_readme pathname ec2))))"

text \<open>Lines 153 to 301: the GitHub branch as a whole.\<close>

definition github_step ::
  "js_engine \<Rightarrow> 'n libs \<Rightarrow> 'n \<Rightarrow> string \<Rightarrow> string \<Rightarrow> http_response \<Rightarrow> scraped
     \<Rightarrow> js_error + scraped \<times> string list" where
  "github_step E W document hostname pathname response ec =
     (if str_includes hostname ''github.com'' \<or> str_includes hostname ''raw.githubusercontent.com'' then
        (let ec0 = set_meta ''source'' (JStr ''github'') ec
         in if str_includes hostname ''raw.githubusercontent.com'' then
              Inr (github_raw pathname response ec0, [])
            else
              (case pre_fallback E W document pathname ec0 of
                 Inl e \<Rightarrow> Inl e
               | Inr pre \<Rightarrow> Inr (raw_fallback W pre)))
      else Inr (ec, []))"

section \<open>The Scrape handler: documentation sites, markdown, Open Graph, AI analysis\<close>

text \<open>Lines 304 to 316.\<close>

definition section_entry :: "'n libs \<Rightarrow> 'n \<Rightarrow> jsval" where
  "section_entry W h =
     JObj [(''level'', JStr (toLowerCase (tagName W h))),
           (''title'', JStr (trimmed_text W h)),
           (''id'', JStr (element_id W h))]"

definition claude_docs_step :: "'n libs \<Rightarrow> 'n \<Rightarrow> string \<Rightarrow> scraped \<Rightarrow> scraped" where
  "claude_docs_step W document hostname ec =
     (if str_includes hostname ''code.claude.com'' \<or> str_includes hostname ''claude.com'' then
        (let ec1 = set_meta ''source'' (JStr ''claude-docs'') ec
         in case first_selected W document main_selectors of
              None \<Rightarrow> ec1
            | Some mainContent \<Rightarrow>
                set_meta ''sections''
                  (JArr (map (section_entry W) (querySelectorAll W mainContent ''h2, h3''))) ec1)
      else ec)"

text \<open>Lines 319 to 329.\<close>

definition rawMarkdown_selector :: string where
  "rawMarkdown_selector = ''pre, .markdown-body pre, code[class*='' @ [CHR 0x22]
     @ ''language-markdown'' @ [CHR 0x22] @ '']''"

definition markdown_step :: "'n libs \<Rightarrow> 'n \<Rightarrow> string \<Rightarrow> scraped \<Rightarrow> scraped" where
  "markdown_step W document pathname ec =
     (if (case get_key (sc_metadata ec) ''contentType'' of
            JStr ct \<Rightarrow> str_includes ct ''markdown'' | _ \<Rightarrow> False)
         \<or> endsWith (toLowerCase pathname) ''.md''
         \<or> get_key (sc_metadata ec) ''fileExtension'' = JStr ''md''
      then
        (let ec1 = set_meta ''isMarkdown'' (JBool True) ec
         in case querySelector W document rawMarkdown_selector of
              None \<Rightarrow> ec1
            | Some markdownContent \<Rightarrow> set_meta ''rawMarkdown'' (JStr (trimmed_text W markdownContent)) ec1)
      else ec)"

text \<open>Lines 332 to 335.\<close>

definition og_selector :: "string \<Rightarrow> string" where
  "og_selector p = ''meta[property='' @ [CHR 0x22] @ p @ [CHR 0x22] @ '']''"

definition attribute_value :: "'n libs \<Rightarrow> 'n \<Rightarrow> string \<Rightarrow> jsval" where
  "attribute_value W n a = (case getAttribute W n a of None \<Rightarrow> JNull | Some v \<Rightarrow> JStr v)"

definition og_step :: "'n libs \<Rightarrow> 'n \<Rightarrow> scraped \<Rightarrow> scraped" where
  "og_step W document ec =
     (let ec1 = (case querySelector W document (og_selector ''og:title'') of
                   None \<Rightarrow> ec
                 | Some ogTitle \<Rightarrow> set_meta ''ogTitle'' (attribute_value W ogTitle ''content'') ec)
      in case querySelector W document (og_selector ''og:description'') of
           None \<Rightarrow> ec1
         | Some ogDescription \<Rightarrow>
             set_meta ''ogDescription'' (attribute_value W ogDescription ''content'') ec1)"

text \<open>Lines 338 to 357: the analysis is run on request, and its error is absorbed.\<close>

definition ai_step :: "js_engine \<Rightarrow> node_env \<Rightarrow> js_error + ai_message \<Rightarrow> bool \<Rightarrow> scraped \<Rightarrow> scraped" where
  "ai_step E env reply useAI ec =
     (if useAI then
        (case analyzeScrapedContent E env reply ec of
           Inr analysis \<Rightarrow> ec\<lparr>sc_aiAnalysis := Some analysis\<rparr>
         | Inl aiError \<Rightarrow>
             ec\<lparr>sc_aiAnalysis := Some (JObj
                  [(''error'', JStr (err_message aiError)),
                   (''warning'', JStr ''AI analysis failed, but scraping completed successfully'')])\<rparr>)
      else ec)"

section \<open>The Scrape handler: responses\<close>

definition codeBlock_json :: "string \<times> string \<Rightarrow> jsval" where
  "codeBlock_json cb = JObj [(''language'', JStr (fst cb)), (''content'', JStr (snd cb))]"

definition scraped_json :: "scraped \<Rightarrow> jsval" where
  "scraped_json ec =
     JObj ([(''title'', JStr (sc_title ec)),
            (''description'', JStr (sc_description ec)),
            (''content'', JStr (sc_content ec)),
            (''codeBlocks'', JArr (map codeBlock_json (sc_codeBlocks ec))),
            (''metadata'', JObj (sc_metadata ec))]
           @ (case sc_aiAnalysis ec of None \<Rightarrow> [] | Some a \<Rightarrow> [(''aiAnalysis'', a)]))"

text \<open>Lines 364 to 431: the \<^verbatim>\<open>catch\<close> block.\<close>

definition scrape_failed :: "node_env \<Rightarrow> js_error \<Rightarrow> response" where
  "scrape_failed env e =
     (case err_response e of
        Some (st, statusText) \<Rightarrow>
          \<lparr>status = (if st < 500 then st else 500),
           json = JObj
             [(''error'', JStr ''Failed to fetch URL''),
              (''message'', JStr
                 (if st = 403 then ''Access forbidden. The website may require authentication or block scrapers.''
                  else if st = 404 then ''Page not found. Please check the URL.''
                  else if st = 429 then ''Rate limited. Please try again later.''
                  else if st \<ge> 500 then ''Server error. The website may be temporarily unavailable.''
                  else or_else (Some statusText) ''Failed to fetch URL'')),
              (''status'', JNum (int st))]\<rparr>
      | None \<Rightarrow>
          if err_code e = Some ''ENOTFOUND'' then
            \<lparr>status = 400,
             json = JObj [(''error'', JStr ''Could not resolve URL''),
                          (''message'', JStr ''The domain name could not be found. Please check the URL.'')]\<rparr>
          else if err_code e = Some ''ECONNREFUSED'' then
            \<lparr>status = 400,
             json = JObj [(''error'', JStr ''Connection refused''),
                          (''message'', JStr ''Could not connect to the server. Please check the URL.'')]\<rparr>
          else if err_code e = Some ''ETIMEDOUT'' \<or> err_code e = Some ''ECONNABORTED'' then
            \<lparr>status = 408,
             json = JObj [(''error'', JStr ''Request timeout''),
                          (''message'', JStr ''The request took too long. The website may be slow or unavailable.'')]\<rparr>
          else if err_code e = Some ''ERR_FR_TOO_MANY_REDIRECTS'' then
            \<lparr>status = 400,
             json = JObj [(''error'', JStr ''Too many redirects''),
                          (''message'', JStr ''The URL redirects too many times. Please check the URL.'')]\<rparr>
          else if str_includes (err_message e) ''maxContentLength'' then
            \<lparr>status = 413,
             json = JObj [(''error'', JStr ''Content too large''),
                          (''message'', JStr ''The page content is too large to scrape. Please try a different URL.'')]\<rparr>
          else
            \<lparr>status = 500,
             json = JObj [(''error'', JStr ''Failed to scrape URL''),
                          (''message'', JStr (or_else (Some (err_message e)) ''An unexpected error occurred'')),
                          (''details'', details env e)]\<rparr>)"

text \<open>
  Lines 54 to 357: everything between the primary fetch and the response. It returns the
  extracted content and the URLs fetched on the way, or \<open>Inl\<close> an error thrown on the way.
\<close>

definition extract_all ::
  "js_engine \<Rightarrow> 'n libs \<Rightarrow> node_env \<Rightarrow> js_error + ai_message \<Rightarrow> string \<Rightarrow> string \<Rightarrow> string
     \<Rightarrow> http_response \<Rightarrow> bool \<Rightarrow> js_error + scraped \<times> string list" where
  "extract_all E W env reply url hostname pathname response useAI =
     (let document = JSDOM W (hr_data response);
          ec0 = (extract_page W document)\<lparr>sc_metadata := initial_metadata env url hostname response\<rparr>
      in case github_step E W document hostname pathname response ec0 of
           Inl e \<Rightarrow> Inl e
         | Inr (ec1, fetched) \<Rightarrow>
             Inr (ai_step E env reply useAI
                    (og_step W document
                      (markdown_step W document pathname
                        (claude_docs_step W document hostname ec1))),
                  fetched))"

record scrape_body =
  su_url :: "string option"
  su_useAI :: bool

text \<open>
  The handler. Its result is the response and the URLs requested from the network, in order.
  The primary fetch accepts every status below 500 and has a timeout of 30 seconds.
\<close>

definition scrape_handler ::
  "js_engine \<Rightarrow> 'n libs \<Rightarrow> node_env \<Rightarrow> js_error + ai_message \<Rightarrow> string \<Rightarrow> scrape_body
     \<Rightarrow> response \<times> string list" where
  "scrape_handler E W env reply method body =
     (if method = ''OPTIONS'' then (\<lparr>status = 200, json = JObj [(''ok'', JBool True)]\<rparr>, [])
      else if method \<noteq> ''POST'' then
        (\<lparr>status = 405, json = JObj [(''error'', JStr ''Method not allowed'')]\<rparr>, [])
      else if \<not> truthy (su_url body) then
        (\<lparr>status = 400, json = JObj [(''error'', JStr ''URL is required'')]\<rparr>, [])
      else
        (let url = str_of (su_url body)
         in case URL_parse W url of
              None \<Rightarrow> (\<lparr>status = 400, json = JObj [(''error'', JStr ''Invalid URL format'')]\<rparr>, [])
            | Some (hostname, pathname) \<Rightarrow>
                (case axios_get (\<lambda>s. s < 500) (net W url 30000) of
                   Inl e \<Rightarrow> (scrape_failed env e, [url])
                 | Inr response \<Rightarrow>
                     (case extract_all E W env reply url hostname pathname response (su_useAI body) of
                        Inl e \<Rightarrow> (scrape_failed env e, [url])
                      | Inr (extractedContent, fetched) \<Rightarrow>
                          (\<lparr>status = 200,
                            json = JObj [(''success'', JBool True),
                                         (''data'', scraped_json extractedContent)]\<rparr>,
                           url # fetched)))))"

section \<open>Sample libraries\<close>

text \<open>
  A small instance of the library parameters, on which the scraper is evaluated. Its pages are
  a body of text after an optional first-level heading: \<open>Page h t\<close> is the document,
  \<open>Body h t\<close> its body element and \<open>H1 x\<close> the heading element. Its URL parser reads
  \<^verbatim>\<open>https://host/path\<close>. The network is a parameter of the instance.
\<close>

datatype sample_node = Page "string option" string | Body "string option" string | H1 string

definition sample_JSDOM :: "jsval \<Rightarrow> sample_node" where
  "sample_JSDOM v =
     (case v of
        JStr s \<Rightarrow>
          (if startsWith s ''<h1>'' then
             (case lazy_until ''</h1>'' (drop 4 s) of
                Some h \<Rightarrow> Page (Some h) (drop (length h + 9) s)
              | None \<Rightarrow> Page None s)
           else Page None s)
      | _ \<Rightarrow> Page None [])"

definition sample_URL_parse :: "string \<Rightarrow> (string \<times> string) option" where
  "sample_URL_parse url =
     (if startsWith url ''https://'' then
        (let rest = drop 8 url;
             host = takeWhile (\<lambda>c. c \<noteq> CHR ''/'') rest;
             path = dropWhile (\<lambda>c. c \<noteq> CHR ''/'') rest
         in if host = [] then None else Some (host, if path = [] then ''/'' else path))
      else None)"

fun sample_querySelector :: "sample_node \<Rightarrow> string \<Rightarrow> sample_node option" where
  "sample_querySelector (Page h t) sel =
     (if sel = ''body'' then Some (Body h t)
      else if sel = ''h1'' then map_option H1 h
      else None)"
| "sample_querySelector n sel = None"

fun sample_querySelectorAll :: "sample_node \<Rightarrow> string \<Rightarrow> sample_node list" where
  "sample_querySelectorAll (Body (Some x) t) sel =
     (if sel = ''h1, h2, h3, h4, h5, h6'' then [H1 x] else [])"
| "sample_querySelectorAll n sel = []"

fun sample_textContent :: "sample_node \<Rightarrow> string" where
  "sample_textContent (Page h t) = []"
| "sample_textContent (Body h t) = (case h of Some x \<Rightarrow> x | None \<Rightarrow> []) @ t"
| "sample_textContent (H1 x) = x"

fun sample_tagName :: "sample_node \<Rightarrow> string" where
  "sample_tagName (Page h t) = []"
| "sample_tagName (Body h t) = ''BODY''"
| "sample_tagName (H1 x) = ''H1''"

definition sample_libs :: "(string \<Rightarrow> nat \<Rightarrow> net_error + http_response) \<Rightarrow> sample_node libs" where
  "sample_libs network =
     \<lparr>URL_parse = sample_URL_parse,
      net = network,
      JSDOM = sample_JSDOM,
      querySelector = sample_querySelector,
      querySelectorAll = sample_querySelectorAll,
      textContent = sample_textContent,
      getAttribute = (\<lambda>n a. None),
      className = (\<lambda>n. []),
      tagName = sample_tagName,
      element_id = (\<lambda>n. []),
      closest = (\<lambda>n sel. None),
      clone_without = (\<lambda>n sel. n)\<rparr>"

definition ok_response :: "string \<Rightarrow> string \<Rightarrow> http_response" where
  "ok_response contentType body =
     \<lparr>hr_status = 200, hr_statusText = ''OK'', hr_contentType = Some contentType, hr_data = JStr body\<rparr>"

definition no_network :: "net_error + http_response" where
  "no_network = Inl \<lparr>ne_code = Some ''ENOTFOUND'', ne_message = ''getaddrinfo ENOTFOUND''\<rparr>"

text \<open>The raw file of the scenario, a page with a heading, and a blob page whose raw file is empty.\<close>

definition readme_url :: string where
  "readme_url = ''https://raw.githubusercontent.com/o/r/main/README.md''"

definition readme_network :: "string \<Rightarrow> nat \<Rightarrow> net_error + http_response" where
  "readme_network url timeout =
     (if url = readme_url then Inr (ok_response ''text/plain; charset=utf-8'' ''# Title\<newline>\<newline>Body'')
      else no_network)"

definition heading_url :: string where
  "heading_url = ''https://example.com/guide''"

definition heading_network :: "string \<Rightarrow> nat \<Rightarrow> net_error + http_response" where
  "heading_network url timeout =
     (if url = heading_url then Inr (ok_response ''text/html'' ''<h1>Guide</h1>Read this first.'')
      else no_network)"

definition blob_url :: string where
  "blob_url = ''https://github.com/o/r/blob/main/empty.txt''"

definition blob_network :: "string \<Rightarrow> nat \<Rightarrow> net_error + http_response" where
  "blob_network url timeout =
     (if url = blob_url then Inr (ok_response ''text/html'' ''<h1>empty.txt</h1>File view'')
      else if url = ''https://raw.githubusercontent.com/o/r/main/empty.txt''
        then Inr (ok_response ''text/plain'' [])
      else no_network)"

definition missing_url :: string where
  "missing_url = ''https://example.com/missing''"

definition missing_network :: "string \<Rightarrow> nat \<Rightarrow> net_error + http_response" where
  "missing_network url timeout =
     (if url = missing_url
      then Inr \<lparr>hr_status = 404, hr_statusText = ''Not Found'', hr_contentType = Some ''text/html'',
                hr_data = JStr ''<h1>404</h1>No such page''\<rparr>
      else no_network)"

definition post :: "string \<Rightarrow> scrape_body" where
  "post url = \<lparr>su_url = Some url, su_useAI = False\<rparr>"

section \<open>Metadata keys\<close>

text \<open>The steps after the GitHub branch keep the content and touch six metadata keys only.\<close>

definition late_keys :: "string list" where
  "late_keys = [''source'', ''sections'', ''isMarkdown'', ''rawMarkdown'', ''ogTitle'', ''ogDescription'']"

text \<open>The metadata keys that the GitHub branch sets before the raw-content fallback.\<close>

definition github_keys :: "string list" where
  "github_keys = [''source'', ''repository'', ''branch'', ''filePath'', ''fileExtension'', ''isRaw'',
     ''rawContent'', ''rawUrl'', ''isRepoRoot'', ''repoStructure'', ''isReadme'']"

text \<open>
  The URL that the fallback requests: the raw URL in the metadata, when it is a non-empty string
  and the content is shorter than 500 characters.
\<close>

definition fallback_url :: "scraped \<Rightarrow> string option" where
  "fallback_url ec =
     (case get_key (sc_metadata ec) ''rawUrl'' of
        JStr rawUrl \<Rightarrow> (if length (sc_content ec) < 500 \<and> rawUrl \<noteq> [] then Some rawUrl else None)
      | _ \<Rightarrow> None)"

text \<open>
  In a DOM every element selected by \<^verbatim>\<open>a[href*="/blob/"], a[href*="/tree/"]\<close> has an
  \<^verbatim>\<open>href\<close> attribute. The libraries are parameters, so this is a condition on them.
\<close>

definition links_have_href :: "'n libs \<Rightarrow> 'n \<Rightarrow> bool" where
  "links_have_href W document =
     list_all (\<lambda>link. getAttribute W link ''href'' \<noteq> None) (querySelectorAll W document fileLinks_selector)"

text \<open>A blob page whose raw file is a line of text.\<close>

definition notes_url :: string where
  "notes_url = ''https://github.com/o/r/blob/main/notes.txt''"

definition notes_network :: "string \<Rightarrow> nat \<Rightarrow> net_error + http_response" where
  "notes_network url timeout =
     (if url = notes_url then Inr (ok_response ''text/html'' ''<h1>notes.txt</h1>File view'')
      else if url = ''https://raw.githubusercontent.com/o/r/main/notes.txt''
        then Inr (ok_response ''text/plain'' ''remember the milk'')
      else no_network)"

section \<open>Properties of the sanitizers\<close>

lemma slug_not_ws: "isSlugChar c \<Longrightarrow> \<not> isWhiteSpace c"
  by (auto simp: isSlugChar_def isWhiteSpace_def)

lemma slug_lower: "isSlugChar c \<Longrightarrow> toLowerChar c = c"
  by (auto simp: isSlugChar_def toLowerChar_def)

lemma dropWhile_none: "\<forall>c\<in>set s. \<not> P c \<Longrightarrow> dropWhile P s = s"
  by (cases s) auto

lemma trim_id: "\<forall>c\<in>set s. \<not> isWhiteSpace c \<Longrightarrow> trim s = s"
  unfolding trim_def by (simp add: dropWhile_none)

lemma replace_ws_runs_id: "\<forall>c\<in>set s. \<not> isWhiteSpace c \<Longrightarrow> replace_ws_runs s = s"
  by (induction s) auto

lemma replace_ws_runs_no_ws: "c \<in> set (replace_ws_runs s) \<Longrightarrow> \<not> isWhiteSpace c"
  by (induction s rule: replace_ws_runs.induct)
     (auto simp: isWhiteSpace_def codeUnit_def split: if_splits)

text \<open>The name sanitizer keeps only \<^verbatim>\<open>[a-z0-9-]\<close> and is idempotent.\<close>

lemma sanitizedName_chars: "c \<in> set (sanitizedName x) \<Longrightarrow> isSlugChar c"
  by (simp add: sanitizedName_def strip_non_slug_def)

lemma sanitizedName_fixed: "\<forall>c\<in>set s. isSlugChar c \<Longrightarrow> sanitizedName s = s"
  by (simp add: sanitizedName_def strip_non_slug_def toLowerCase_def trim_id slug_not_ws
      replace_ws_runs_id slug_lower map_idI)

lemma sanitizedName_idem: "sanitizedName (sanitizedName x) = sanitizedName x"
  by (rule sanitizedName_fixed) (simp add: sanitizedName_chars)

lemma toLowerChar_idem: "toLowerChar (toLowerChar c) = toLowerChar c"
  by (auto simp: toLowerChar_def codeUnit_def)

lemma toLowerChar_ws: "isWhiteSpace (toLowerChar c) = isWhiteSpace c"
  by (auto simp: toLowerChar_def isWhiteSpace_def codeUnit_def)

lemma replace_ws_runs_lower:
  "\<forall>c\<in>set s. toLowerChar c = c \<Longrightarrow> c \<in> set (replace_ws_runs s) \<Longrightarrow> toLowerChar c = c"
proof (induction s arbitrary: c rule: replace_ws_runs.induct)
  case 1
  then show ?case by simp
next
  case (2 d ds)
  have h: "toLowerChar (CHR ''-'') = CHR ''-''" by (simp add: toLowerChar_def codeUnit_def)
  show ?case
  proof (cases "isWhiteSpace d")
    case True
    then have "c = CHR ''-'' \<or> c \<in> set (replace_ws_runs (dropWhile isWhiteSpace ds))"
      using "2.prems"(2) by simp
    moreover have "\<forall>c\<in>set (dropWhile isWhiteSpace ds). toLowerChar c = c"
      using "2.prems"(1) by (auto dest: set_dropWhileD)
    ultimately show ?thesis using "2.IH"(1)[OF True] h by blast
  next
    case False
    then have "c = d \<or> c \<in> set (replace_ws_runs ds)" using "2.prems"(2) by simp
    then show ?thesis using "2.IH"(2)[OF False] "2.prems"(1) by auto
  qed
qed

text \<open>The category sanitizer is idempotent and leaves no white space, but keeps other characters.\<close>

lemma sanitizedCategory_no_ws: "c \<in> set (sanitizedCategory x) \<Longrightarrow> \<not> isWhiteSpace c"
  by (simp add: sanitizedCategory_def replace_ws_runs_no_ws)

lemma sanitizedCategory_idem: "sanitizedCategory (sanitizedCategory x) = sanitizedCategory x"
proof -
  let ?y = "sanitizedCategory x"
  have ws: "\<forall>c\<in>set ?y. \<not> isWhiteSpace c" using sanitizedCategory_no_ws by blast
  have "\<forall>c\<in>set (toLowerCase (trim x)). toLowerChar c = c"
    by (auto simp: toLowerCase_def toLowerChar_idem)
  then have low: "\<forall>c\<in>set ?y. toLowerChar c = c"
    unfolding sanitizedCategory_def using replace_ws_runs_lower by blast
  have "trim ?y = ?y" using ws by (rule trim_id)
  moreover have "toLowerCase ?y = ?y" using low by (simp add: toLowerCase_def map_idI)
  moreover have "replace_ws_runs ?y = ?y" using ws by (rule replace_ws_runs_id)
  ultimately show ?thesis by (simp add: sanitizedCategory_def[of ?y])
qed

text \<open>
  C8. For every input the slug applied to name and category is idempotent and its output
  matches \<^verbatim>\<open>^[a-z0-9-]*$\<close>. The category sanitizer has no final strip: on the category
  \<^verbatim>\<open>Dev Team!\<close> it returns \<^verbatim>\<open>dev-team!\<close>, which holds a character outside
  \<^verbatim>\<open>[a-z0-9-]\<close>, while the name sanitizer on the same input returns \<^verbatim>\<open>dev-team\<close>.
\<close>

theorem C8_category_slug_keeps_punctuation:
  "sanitizedCategory ''Dev Team!'' = ''dev-team!''
   \<and> \<not> list_all isSlugChar (sanitizedCategory ''Dev Team!'')
   \<and> sanitizedName ''Dev Team!'' = ''dev-team''"
  by code_simp

section \<open>Properties of the Classifier\<close>


lemma try_analysis_parse_fails:
  assumes "msg_content message = text # rest" "JSON_parse E (jsonText (trim text)) = Inl msg"
  shows "try_analysis E env (Inr message) = Inl (Error msg)"
  using assms by (simp add: try_analysis_def)





section \<open>Properties of the Persist handler\<close>


















text \<open>
  C2. Persist slugifies both name and category so that they contain only \<^verbatim>\<open>[a-z0-9-]\<close>, and
  the request \<^verbatim>\<open>{type: "agents", category: "Dev Team!", name: "My Agent", description: "x"}\<close>
  yields the path \<^verbatim>\<open>agents/dev-team/my-agent.md\<close>. Evaluated on an empty catalog the handler
  answers 201, but with the category \<^verbatim>\<open>dev-team!\<close> and the file
  \<^verbatim>\<open>agents/dev-team!/my-agent.md\<close> under the components directory: the exclamation mark
  of the category is kept.
\<close>

theorem C2_dev_team_scenario:
  "fst (create_handler sample_engine sample_env Map.empty ''POST'' dev_team_request) =
     \<lparr>status = 201,
      json = JObj
        [(''success'', JBool True),
         (''message'', JStr ''Component created successfully''),
         (''data'', JObj
            [(''type'', JStr ''agents''),
             (''category'', JStr ''dev-team!''),
             (''name'', JStr ''my-agent''),
             (''path'', JStr ''cli-tool/components/agents/dev-team!/my-agent.md''),
             (''filePath'', JStr ''/app/cli-tool/components/agents/dev-team!/my-agent.md'')])]\<rparr>"
  by code_simp

theorem C2_dev_team_scenario_witness:
  "field (field (json (fst (create_handler sample_engine sample_env Map.empty ''POST''
      dev_team_request))) ''data'') ''category'' = JStr ''dev-team!''"
  using C2_dev_team_scenario by (simp add: field_def)





section \<open>Properties of the Regenerate handler\<close>

text \<open>
  C4. When the generation script is absent Regenerate fails with 404; when it exists and
  succeeds the response holds the last 20 lines of its output. The handler reads
  \<^verbatim>\<open>fs.existsSync\<close>, and \<^verbatim>\<open>fs\<close> is bound nowhere in its module, so every POST ends in the
  \<^verbatim>\<open>catch\<close> block: the answer is 500 with the message \<^verbatim>\<open>fs is not defined\<close>, whether the script
  exists or not, and the script is never run.
\<close>

theorem C4_regenerate_answers_500:
  "regenerate_handler env exec fs ''POST'' =
     \<lparr>status = 500,
      json = JObj [(''error'', JStr ''Failed to regenerate catalog''),
                   (''message'', JStr ''fs is not defined''),
                   (''details'', details env
                      ((Error ''fs is not defined'')
                         \<lparr>err_stack := ''ReferenceError: fs is not defined''\<rparr>))]\<rparr>"
  by (simp add: regenerate_handler_def regenerate_scope_def resolve_identifier_def
      regenerate_failed_def or_else_def truthy_def str_of_def Error_def)

theorem C4_regenerate_answers_500_witness:
  "status (regenerate_handler sample_env (\<lambda>c. Inr ''done'') Map.empty ''POST'') = 500
   \<and> status (regenerate_handler sample_env (\<lambda>c. Inr ''done'')
        [[''app'', ''generate_components_json.py''] \<mapsto> File ''print(1)''] ''POST'') = 500"
  using C4_regenerate_answers_500[of sample_env "\<lambda>c. Inr ''done''" Map.empty]
    C4_regenerate_answers_500[of sample_env "\<lambda>c. Inr ''done''"
      "[[''app'', ''generate_components_json.py''] \<mapsto> File ''print(1)'']"]
  by simp

section \<open>Properties of the Scrape handler\<close>

lemma map_of_set_key: "map_of (set_key k v kvs) k' = (if k' = k then Some v else map_of kvs k')"
  by (induction kvs) auto

lemma get_key_set_key: "get_key (set_key k v kvs) k' = (if k' = k then v else get_key kvs k')"
  by (simp add: get_key_def map_of_set_key)

lemma set_meta_simps:
  "sc_metadata (set_meta k v ec) = set_key k v (sc_metadata ec)"
  "sc_content (set_meta k v ec) = sc_content ec"
  "sc_title (set_meta k v ec) = sc_title ec"
  "sc_description (set_meta k v ec) = sc_description ec"
  "sc_codeBlocks (set_meta k v ec) = sc_codeBlocks ec"
  "sc_aiAnalysis (set_meta k v ec) = sc_aiAnalysis ec"
  by (simp_all add: set_meta_def)

lemma get_meta_set_meta:
  "get_key (sc_metadata (set_meta k v ec)) k' = (if k' = k then v else get_key (sc_metadata ec) k')"
  by (simp add: set_meta_simps get_key_set_key)

lemma field_JObj: "field (JObj kvs) k = get_key kvs k"
  by (simp add: field_def get_key_def)

lemma scraped_json_fields:
  "field (scraped_json ec) ''content'' = JStr (sc_content ec)"
  "field (scraped_json ec) ''metadata'' = JObj (sc_metadata ec)"
  by (simp_all add: scraped_json_def field_def)

lemma claude_docs_step_keeps:
  "sc_content (claude_docs_step W d h ec) = sc_content ec"
  "k \<notin> set late_keys \<Longrightarrow> get_key (sc_metadata (claude_docs_step W d h ec)) k = get_key (sc_metadata ec) k"
  by (auto simp: claude_docs_step_def late_keys_def Let_def set_meta_simps get_key_set_key
      split: option.splits)

lemma markdown_step_keeps:
  "sc_content (markdown_step W d p ec) = sc_content ec"
  "k \<notin> set late_keys \<Longrightarrow> get_key (sc_metadata (markdown_step W d p ec)) k = get_key (sc_metadata ec) k"
  by (auto simp: markdown_step_def late_keys_def Let_def set_meta_simps get_key_set_key
      split: option.splits)

lemma og_step_keeps:
  "sc_content (og_step W d ec) = sc_content ec"
  "k \<notin> set late_keys \<Longrightarrow> get_key (sc_metadata (og_step W d ec)) k = get_key (sc_metadata ec) k"
  by (auto simp: og_step_def late_keys_def Let_def set_meta_simps get_key_set_key
      split: option.splits)

lemma ai_step_keeps:
  "sc_content (ai_step E env reply u ec) = sc_content ec"
  "sc_metadata (ai_step E env reply u ec) = sc_metadata ec"
  by (auto simp: ai_step_def split: sum.splits)

lemmas late_steps_keep = claude_docs_step_keeps markdown_step_keeps og_step_keeps ai_step_keeps

lemma readme_facts:
  "match_search [raw_pattern] ''/o/r/main/README.md'' = Some [''o'', ''r'', ''main'', ''README.md'']"
  "raw_text (JStr ''# Title\<newline>\<newline>Body'') = Some ''# Title\<newline>\<newline>Body''"
  "str_includes ''raw.githubusercontent.com'' ''raw.githubusercontent.com''"
  "truthy (Some ''https://raw.githubusercontent.com/o/r/main/README.md'')"
  by code_simp+

lemma github_raw_readme:
  assumes "hr_data response = JStr ''# Title\<newline>\<newline>Body''"
  shows "sc_content (github_raw ''/o/r/main/README.md'' response ec) = ''# Title\<newline>\<newline>Body''"
    and "get_key (sc_metadata (github_raw ''/o/r/main/README.md'' response ec)) ''isRaw'' = JBool True"
    and "get_key (sc_metadata (github_raw ''/o/r/main/README.md'' response ec)) ''rawContent'' = JBool True"
    and "get_key (sc_metadata (github_raw ''/o/r/main/README.md'' response ec)) ''repository''
           = JObj [(''owner'', JStr ''o''), (''name'', JStr ''r'')]"
    and "get_key (sc_metadata (github_raw ''/o/r/main/README.md'' response ec)) ''branch'' = JStr ''main''"
    and "get_key (sc_metadata (github_raw ''/o/r/main/README.md'' response ec)) ''filePath'' = JStr ''README.md''"
  using assms
  by (simp_all add: github_raw_def readme_facts Let_def set_meta_simps get_key_set_key
      del: match_search.simps)

text \<open>
  C7. Scraping \<^verbatim>\<open>https://raw.githubusercontent.com/o/r/main/README.md\<close> when the response body
  is the plain text \<^verbatim>\<open># Title\<close>, empty line, \<^verbatim>\<open>Body\<close>: the handler answers 200, the content of
  the data is that body verbatim, and the metadata carries \<^verbatim>\<open>isRaw = true\<close>, the repository
  with owner \<^verbatim>\<open>o\<close> and name \<^verbatim>\<open>r\<close>, the branch \<^verbatim>\<open>main\<close>, the file path \<^verbatim>\<open>README.md\<close> and
  \<^verbatim>\<open>rawContent = true\<close>, whatever the document parser makes of the text.
\<close>

theorem C7_raw_readme:
  assumes "url = ''https://raw.githubusercontent.com/o/r/main/README.md''"
    and "URL_parse W url = Some (''raw.githubusercontent.com'', ''/o/r/main/README.md'')"
    and "net W url 30000 = Inr response" and "hr_status response < 500"
    and "hr_data response = JStr ''# Title\<newline>\<newline>Body''"
    and "r = fst (scrape_handler E W env reply ''POST'' \<lparr>su_url = Some url, su_useAI = useAI\<rparr>)"
    and "data = field (json r) ''data''"
    and "md = field data ''metadata''"
  shows "status r = 200
     \<and> field data ''content'' = JStr ''# Title\<newline>\<newline>Body''
     \<and> field md ''isRaw'' = JBool True
     \<and> field md ''repository'' = JObj [(''owner'', JStr ''o''), (''name'', JStr ''r'')]
     \<and> field md ''branch'' = JStr ''main''
     \<and> field md ''filePath'' = JStr ''README.md''
     \<and> field md ''rawContent'' = JBool True"
proof -
  let ?doc = "JSDOM W (hr_data response)"
  let ?ec0 = "(extract_page W ?doc)\<lparr>sc_metadata := initial_metadata env url
                 ''raw.githubusercontent.com'' response\<rparr>"
  let ?raw = "github_raw ''/o/r/main/README.md'' response (set_meta ''source'' (JStr ''github'') ?ec0)"
  let ?final = "ai_step E env reply useAI (og_step W ?doc (markdown_step W ?doc ''/o/r/main/README.md''
                  (claude_docs_step W ?doc ''raw.githubusercontent.com'' ?raw)))"
  have g: "github_step E W ?doc ''raw.githubusercontent.com'' ''/o/r/main/README.md'' response ?ec0
             = Inr (?raw, [])"
    by (simp add: github_step_def readme_facts Let_def del: str_includes.simps)
  have x: "extract_all E W env reply url ''raw.githubusercontent.com'' ''/o/r/main/README.md''
             response useAI = Inr (?final, [])"
    by (simp add: extract_all_def Let_def g)
  have h: "scrape_handler E W env reply ''POST'' \<lparr>su_url = Some url, su_useAI = useAI\<rparr>
             = (\<lparr>status = 200, json = JObj [(''success'', JBool True), (''data'', scraped_json ?final)]\<rparr>,
                [url])"
    using assms(2-4) readme_facts(4)
    by (simp add: scrape_handler_def assms(1) str_of_def axios_get_def x[unfolded assms(1)] Let_def)
  have keys: "''isRaw'' \<notin> set late_keys" "''repository'' \<notin> set late_keys" "''branch'' \<notin> set late_keys"
    "''filePath'' \<notin> set late_keys" "''rawContent'' \<notin> set late_keys"
    by (simp_all add: late_keys_def)
  have d: "data = scraped_json ?final" using assms(6,7) h by (simp add: field_def)
  have m: "md = JObj (sc_metadata ?final)" using assms(8) d by (simp add: scraped_json_fields)
  show ?thesis
    using assms(6) h
    by (simp add: d m scraped_json_fields field_JObj late_steps_keep keys github_raw_readme[OF assms(5)])
qed


theorem C7_raw_readme_witness:
  "status (fst (scrape_handler sample_engine (sample_libs readme_network) sample_env
       (Inl (Error ''unused'')) ''POST'' \<lparr>su_url = Some readme_url, su_useAI = False\<rparr>)) = 200
   \<and> field (field (json (fst (scrape_handler sample_engine (sample_libs readme_network) sample_env
       (Inl (Error ''unused'')) ''POST'' \<lparr>su_url = Some readme_url, su_useAI = False\<rparr>))) ''data'')
         ''content'' = JStr ''# Title\<newline>\<newline>Body''"
proof -
  have u: "URL_parse (sample_libs readme_network) readme_url
             = Some (''raw.githubusercontent.com'', ''/o/r/main/README.md'')"
    by code_simp
  have n: "net (sample_libs readme_network) readme_url 30000
             = Inr (ok_response ''text/plain; charset=utf-8'' ''# Title\<newline>\<newline>Body'')"
    by (simp add: sample_libs_def readme_network_def)
  have s: "hr_status (ok_response ''text/plain; charset=utf-8'' ''# Title\<newline>\<newline>Body'') < 500"
    and d: "hr_data (ok_response ''text/plain; charset=utf-8'' ''# Title\<newline>\<newline>Body'')
              = JStr ''# Title\<newline>\<newline>Body''"
    by (simp_all add: ok_response_def)
  show ?thesis
    using C7_raw_readme[OF readme_url_def u n s d refl refl refl] by simp
qed

lemma github_raw_keeps:
  "k \<notin> set github_keys \<Longrightarrow>
     get_key (sc_metadata (github_raw p response ec)) k = get_key (sc_metadata ec) k"
  by (auto simp: github_raw_def github_keys_def Let_def set_meta_simps get_key_set_key
      split: option.splits list.splits)

lemma set_repository_keeps:
  "k \<notin> set github_keys \<Longrightarrow>
     get_key (sc_metadata (set_repository p ec)) k = get_key (sc_metadata ec) k"
  "sc_content (set_repository p ec) = sc_content ec"
  by (auto simp: set_repository_def github_keys_def set_meta_simps get_key_set_key
      split: option.splits list.splits)

lemma set_branch_keeps:
  "k \<notin> set github_keys \<Longrightarrow>
     get_key (sc_metadata (set_branch p ec)) k = get_key (sc_metadata ec) k"
  "sc_content (set_branch p ec) = sc_content ec"
  by (auto simp: set_branch_def github_keys_def set_meta_simps get_key_set_key
      split: option.splits list.splits)

lemma github_paths_cases:
  assumes "github_paths E p ec = Inr ec'"
  obtains "ec' = set_branch p (set_repository p ec)"
  | f u where "ec' = set_branch p (set_meta ''rawUrl'' (JStr u)
        (set_meta ''fileExtension'' (JStr (fileExtension f))
          (set_meta ''filePath'' (JStr f) (set_repository p ec))))"
  using assms unfolding github_paths_def Let_def
  by (cases "match_search [blob_path_pattern] p") (auto split: jsval.splits)

lemma github_paths_keeps:
  assumes "github_paths E p ec = Inr ec'" "k \<notin> set github_keys"
  shows "get_key (sc_metadata ec') k = get_key (sc_metadata ec) k"
proof -
  have k: "k \<noteq> ''rawUrl''" "k \<noteq> ''fileExtension''" "k \<noteq> ''filePath''"
    using assms(2) by (auto simp: github_keys_def)
  show ?thesis
    using assms(1)
    by (cases rule: github_paths_cases)
       (simp_all add: set_branch_keeps(1)[OF assms(2)] set_repository_keeps(1)[OF assms(2)]
          get_meta_set_meta k)
qed

lemma github_paths_content:
  "github_paths E p ec = Inr ec' \<Longrightarrow> sc_content ec' = sc_content ec"
  by (erule github_paths_cases) (simp_all add: set_branch_keeps set_repository_keeps set_meta_simps)

lemma github_root_keeps:
  "github_root E W d p ec = Inr ec' \<Longrightarrow> k \<notin> set github_keys \<Longrightarrow>
     get_key (sc_metadata ec') k = get_key (sc_metadata ec) k"
  by (auto simp: github_root_def github_keys_def Let_def set_meta_simps get_key_set_key
      split: if_splits sum.splits)

lemma github_readme_keeps:
  "k \<notin> set github_keys \<Longrightarrow>
     get_key (sc_metadata (github_readme p ec)) k = get_key (sc_metadata ec) k"
  by (auto simp: github_readme_def github_keys_def set_meta_simps get_key_set_key)

lemma github_markdown_metadata: "sc_metadata (github_markdown W d ec) = sc_metadata ec"
  by (auto simp: github_markdown_def Let_def split: option.splits)

lemma raw_fallback_keeps:
  "k \<noteq> ''rawContentFetched'' \<Longrightarrow>
     get_key (sc_metadata (fst (raw_fallback W ec))) k = get_key (sc_metadata ec) k"
  by (auto simp: raw_fallback_def set_meta_simps get_key_set_key
      split: jsval.splits sum.splits option.splits)

lemma pre_fallback_keeps:
  assumes "pre_fallback E W d p ec = Inr pre" "k \<notin> set github_keys"
  shows "get_key (sc_metadata pre) k = get_key (sc_metadata ec) k"
proof -
  obtain ec1 ec2 where 1: "github_paths E p ec = Inr ec1"
    and 2: "github_root E W d p ec1 = Inr ec2"
    and 3: "pre = github_markdown W d (github_readme p ec2)"
    using assms(1) by (auto simp: pre_fallback_def split: sum.splits)
  show ?thesis
    using github_paths_keeps[OF 1 assms(2)] github_root_keeps[OF 2 assms(2)]
    by (simp add: 3 github_markdown_metadata github_readme_keeps[OF assms(2)])
qed

lemma github_step_keeps:
  assumes "github_step E W d h p response ec = Inr (ec', fetched)" "k \<notin> set github_keys"
    and "k \<noteq> ''rawContentFetched''"
  shows "get_key (sc_metadata ec') k = get_key (sc_metadata ec) k"
proof -
  have s: "get_key (sc_metadata (set_meta ''source'' v ec)) k = get_key (sc_metadata ec) k" for v
    using assms(2) by (simp add: set_meta_simps get_key_set_key github_keys_def)
  show ?thesis
    using assms(1)
    apply (simp add: github_step_def Let_def split: if_splits sum.splits)
    using github_raw_keeps[OF assms(2)] pre_fallback_keeps[OF _ assms(2)] raw_fallback_keeps[OF assms(3)] s
    by (metis fst_conv)+
qed

lemma get_key_simps:
  "get_key [] k = JUndefined"
  "get_key ((k', v) # kvs) k = (if k = k' then v else get_key kvs k)"
  by (simp_all add: get_key_def)

lemma field_JUndefined: "field JUndefined k = JUndefined"
  by (simp add: field_def)

lemma scrape_failed_no_data: "field (json (scrape_failed env e)) ''data'' = JUndefined"
  by (auto simp: scrape_failed_def field_def split: option.splits)

lemma extract_all_keeps:
  assumes "extract_all E W env reply url h p response useAI = Inr (ec, fetched)"
    and "k \<notin> set github_keys" "k \<notin> set late_keys" "k \<noteq> ''rawContentFetched''"
  shows "get_key (sc_metadata ec) k = get_key (initial_metadata env url h response) k"
proof -
  let ?doc = "JSDOM W (hr_data response)"
  let ?ec0 = "(extract_page W ?doc)\<lparr>sc_metadata := initial_metadata env url h response\<rparr>"
  obtain ec1 where g: "github_step E W ?doc h p response ?ec0 = Inr (ec1, fetched)"
    and e: "ec = ai_step E env reply useAI (og_step W ?doc (markdown_step W ?doc p
                   (claude_docs_step W ?doc h ec1)))"
    using assms(1) by (auto simp: extract_all_def Let_def split: sum.splits)
  show ?thesis
    using github_step_keeps[OF g assms(2,4)] by (simp add: e late_steps_keep assms(3))
qed

lemma scrape_handler_result:
  obtains (early) r where
      "scrape_handler E W env reply method body = (r, [])"
      "status r \<in> {200, 400, 405}" "field (json r) ''data'' = JUndefined"
  | (fetch_failed) url h p e where
      "su_url body = Some url" "URL_parse W url = Some (h, p)"
      "axios_get (\<lambda>s. s < 500) (net W url 30000) = Inl e"
      "scrape_handler E W env reply method body = (scrape_failed env e, [url])"
  | (extract_failed) url h p response e where
      "su_url body = Some url" "URL_parse W url = Some (h, p)"
      "axios_get (\<lambda>s. s < 500) (net W url 30000) = Inr response"
      "extract_all E W env reply url h p response (su_useAI body) = Inl e"
      "scrape_handler E W env reply method body = (scrape_failed env e, [url])"
  | (ok) url h p response ec fetched where
      "su_url body = Some url" "URL_parse W url = Some (h, p)"
      "axios_get (\<lambda>s. s < 500) (net W url 30000) = Inr response"
      "extract_all E W env reply url h p response (su_useAI body) = Inr (ec, fetched)"
      "scrape_handler E W env reply method body =
         (\<lparr>status = 200, json = JObj [(''success'', JBool True), (''data'', scraped_json ec)]\<rparr>,
          url # fetched)"
proof (cases "method = ''POST'' \<and> truthy (su_url body)")
  case False
  then have "\<exists>r. scrape_handler E W env reply method body = (r, [])
      \<and> status r \<in> {200, 400, 405} \<and> field (json r) ''data'' = JUndefined"
    by (auto simp: scrape_handler_def field_def)
  then show ?thesis using early by blast
next
  case True
  then obtain url where url: "su_url body = Some url"
    by (auto simp: truthy_def split: option.splits)
  have m: "method \<noteq> ''OPTIONS''" using True by auto
  show ?thesis
  proof (cases "URL_parse W url")
    case None
    then have "\<exists>r. scrape_handler E W env reply method body = (r, [])
        \<and> status r \<in> {200, 400, 405} \<and> field (json r) ''data'' = JUndefined"
      using True url by (simp add: scrape_handler_def field_def str_of_def m)
    then show ?thesis using early by blast
  next
    case (Some hp)
    obtain h p where hp: "hp = (h, p)" by (cases hp)
    show ?thesis
    proof (cases "axios_get (\<lambda>s. s < 500) (net W url 30000)")
      case (Inl e)
      then have "scrape_handler E W env reply method body = (scrape_failed env e, [url])"
        using True url Some hp by (simp add: scrape_handler_def str_of_def m)
      then show ?thesis using fetch_failed[of url h p e] url Some hp Inl by simp
    next
      case (Inr response)
      show ?thesis
      proof (cases "extract_all E W env reply url h p response (su_useAI body)")
        case (Inl e)
        then have "scrape_handler E W env reply method body = (scrape_failed env e, [url])"
          using True url Some hp Inr by (simp add: scrape_handler_def str_of_def m)
        then show ?thesis using extract_failed[of url h p response e] url Some hp Inr Inl by simp
      next
        case x: (Inr res)
        obtain ec fetched where res: "res = (ec, fetched)" by (cases res)
        have "scrape_handler E W env reply method body =
           (\<lparr>status = 200, json = JObj [(''success'', JBool True), (''data'', scraped_json ec)]\<rparr>,
            url # fetched)"
          using True url Some hp Inr x res
          by (simp add: scrape_handler_def str_of_def m)
        then show ?thesis
          using ok[of url h p response ec fetched] url Some hp Inr x res by simp
      qed
    qed
  qed
qed

lemma scrape_handler_metadata:
  assumes "k \<notin> set github_keys" "k \<notin> set late_keys"
    and "k \<notin> {''url'', ''domain'', ''contentType'', ''scrapedAt'', ''rawContentFetched''}"
  shows "field (field (field (json (fst (scrape_handler E W env reply method body))) ''data'')
           ''metadata'') k = JUndefined"
proof (cases rule: scrape_handler_result[of E W env reply "method" body])
  case (early r)
  then show ?thesis by (simp add: field_JUndefined)
next
  case (fetch_failed url h p e)
  then show ?thesis by (simp add: field_JUndefined scrape_failed_no_data)
next
  case (extract_failed url h p response e)
  then show ?thesis by (simp add: field_JUndefined scrape_failed_no_data)
next
  case (ok url h p response ec fetched)
  have "get_key (initial_metadata env url h response) k = JUndefined"
    using assms(3) by (simp add: initial_metadata_def get_key_def)
  then have "get_key (sc_metadata ec) k = JUndefined"
    using extract_all_keeps[OF ok(4) assms(1,2)] assms(3) by simp
  then show ?thesis
    by (simp add: ok(5) scraped_json_fields field_JObj get_key_simps)
qed

text \<open>
  C1. A scraped document with a heading carries \<^verbatim>\<open>metadata.headings\<close>, and one with anchors
  carries up to 20 of them in \<^verbatim>\<open>metadata.links\<close>. The handler stores both into the metadata
  object and then replaces that object (\<^verbatim>\<open>// Initialize metadata\<close>), and no later step sets
  either key: no response of the handler has \<^verbatim>\<open>data.metadata.headings\<close> or
  \<^verbatim>\<open>data.metadata.links\<close>, whatever the document.
\<close>

theorem C1_headings_and_links_dropped:
  "field (field (field (json (fst (scrape_handler E W env reply method body))) ''data'')
      ''metadata'') ''headings'' = JUndefined
   \<and> field (field (field (json (fst (scrape_handler E W env reply method body))) ''data'')
      ''metadata'') ''links'' = JUndefined"
  by (simp add: scrape_handler_metadata github_keys_def late_keys_def)


theorem C1_headings_and_links_dropped_witness:
  "get_key (sc_metadata (extract_page (sample_libs heading_network)
       (sample_JSDOM (JStr ''<h1>Guide</h1>Read this first.'')))) ''headings''
     = JArr [JObj [(''level'', JNum 1), (''text'', JStr ''Guide'')]]
   \<and> status (fst (scrape_handler sample_engine (sample_libs heading_network) sample_env
       (Inl (Error ''unused'')) ''POST'' (post heading_url))) = 200
   \<and> field (field (field (json (fst (scrape_handler sample_engine (sample_libs heading_network)
       sample_env (Inl (Error ''unused'')) ''POST'' (post heading_url)))) ''data'') ''metadata'')
       ''headings'' = JUndefined"
proof -
  have "get_key (sc_metadata (extract_page (sample_libs heading_network)
       (sample_JSDOM (JStr ''<h1>Guide</h1>Read this first.'')))) ''headings''
     = JArr [JObj [(''level'', JNum 1), (''text'', JStr ''Guide'')]]"
    by code_simp
  moreover have "status (fst (scrape_handler sample_engine (sample_libs heading_network) sample_env
       (Inl (Error ''unused'')) ''POST'' (post heading_url))) = 200"
    by code_simp
  ultimately show ?thesis
    using C1_headings_and_links_dropped[of sample_engine "sample_libs heading_network" sample_env
        "Inl (Error ''unused'')" "''POST''" "post heading_url"]
    by simp
qed


lemma repo_match_shape:
  "match_here repo_pattern s = Some g \<Longrightarrow> \<exists>a b. g = [a, b]"
  by (auto simp: repo_pattern_def Let_def split: if_splits)

lemma blob_match_repo:
  "match_here blob_path_pattern s = Some g \<Longrightarrow> match_here repo_pattern s \<noteq> None"
  by (auto simp: repo_pattern_def blob_path_pattern_def Let_def split: if_splits)

lemma first_match_single: "first_match [p] s = match_here p s"
  by (simp split: option.splits)

lemma repo_search_shape:
  "match_search [repo_pattern] s = Some g \<Longrightarrow> \<exists>a b. g = [a, b]"
  by (induction s) (auto simp: first_match_single dest: repo_match_shape split: option.splits)

lemma blob_search_repo:
  "match_search [blob_path_pattern] s = Some g \<Longrightarrow> match_search [repo_pattern] s \<noteq> None"
proof (induction s)
  case Nil
  then show ?case using blob_match_repo[of "[]" g] by (auto split: option.splits)
next
  case (Cons c cs)
  show ?case
  proof (cases "match_here blob_path_pattern (c # cs)")
    case None
    then have "match_search [blob_path_pattern] cs = Some g" using Cons.prems by simp
    then have "match_search [repo_pattern] cs \<noteq> None" by (rule Cons.IH)
    then show ?thesis by (simp split: option.splits)
  next
    case (Some g')
    then have "match_here repo_pattern (c # cs) \<noteq> None" by (rule blob_match_repo)
    then show ?thesis by (auto split: option.splits)
  qed
qed

lemma github_paths_total: "\<exists>ec'. github_paths E p ec = Inr ec'"
proof (cases "match_search [blob_path_pattern] p")
  case None
  then show ?thesis by (simp add: github_paths_def)
next
  case (Some g)
  then obtain a b where "match_search [repo_pattern] p = Some [a, b]"
    using blob_search_repo[OF Some] repo_search_shape by (metis not_Some_eq)
  then show ?thesis
    using Some
    by (simp add: github_paths_def Let_def set_repository_def get_meta_set_meta
        del: match_search.simps)
qed

lemma structure_entries_total:
  "list_all (\<lambda>link. getAttribute W link ''href'' \<noteq> None) links
     \<Longrightarrow> \<exists>es. structure_entries E W links = Inr es"
  by (induction links) auto

lemma list_all_take: "list_all P xs \<Longrightarrow> list_all P (take n xs)"
  by (auto simp: list_all_iff dest: in_set_takeD)

lemma github_root_total:
  assumes "links_have_href W d"
  shows "\<exists>ec'. github_root E W d p ec = Inr ec'"
proof -
  obtain es where "structure_entries E W (take 50 (querySelectorAll W d fileLinks_selector)) = Inr es"
    using assms structure_entries_total list_all_take unfolding links_have_href_def by blast
  then show ?thesis by (simp add: github_root_def Let_def)
qed

lemma pre_fallback_total:
  assumes "links_have_href W d"
  shows "\<exists>pre. pre_fallback E W d p ec = Inr pre"
proof -
  obtain ec1 where 1: "github_paths E p ec = Inr ec1" using github_paths_total by blast
  obtain ec2 where 2: "github_root E W d p ec1 = Inr ec2" using github_root_total[OF assms] by blast
  show ?thesis by (simp add: pre_fallback_def 1 2)
qed

lemma extract_all_total:
  assumes "links_have_href W (JSDOM W (hr_data response))"
  shows "\<exists>ec fetched. extract_all E W env reply url h p response useAI = Inr (ec, fetched)"
proof -
  let ?doc = "JSDOM W (hr_data response)"
  let ?ec0 = "(extract_page W ?doc)\<lparr>sc_metadata := initial_metadata env url h response\<rparr>"
  obtain pre where "pre_fallback E W ?doc p (set_meta ''source'' (JStr ''github'') ?ec0) = Inr pre"
    using pre_fallback_total[OF assms] by blast
  then have "\<exists>r. github_step E W ?doc h p response ?ec0 = Inr r"
    by (simp add: github_step_def Let_def)
  then obtain ec1 fetched where "github_step E W ?doc h p response ?ec0 = Inr (ec1, fetched)"
    by fastforce
  then show ?thesis by (simp add: extract_all_def Let_def)
qed



lemma axios_get_rejects:
  assumes "axios_get (\<lambda>s. s < 500) outcome = Inl e"
  shows "err_response e = None \<or> (\<exists>st t. err_response e = Some (st, t) \<and> 500 \<le> st)"
  using assms by (auto simp: axios_get_def Error_def split: sum.splits if_splits)

lemma axios_get_accepts:
  "outcome = Inr response \<Longrightarrow> hr_status response < 500
     \<Longrightarrow> axios_get (\<lambda>s. s < 500) outcome = Inr response"
  by (simp add: axios_get_def)

lemma structure_entries_error:
  "structure_entries E W links = Inl e \<Longrightarrow> err_response e = None"
  by (induction links arbitrary: e) (auto simp: Error_def split: option.splits sum.splits)

lemma pre_fallback_error:
  assumes "pre_fallback E W d p ec = Inl e"
  shows "err_response e = None"
proof -
  obtain ec1 where 1: "github_paths E p ec = Inr ec1" using github_paths_total by blast
  then have "github_root E W d p ec1 = Inl e"
    using assms by (simp add: pre_fallback_def split: sum.splits)
  then show ?thesis
    by (auto simp: github_root_def Let_def split: if_splits sum.splits dest: structure_entries_error)
qed

lemma extract_all_error:
  assumes "extract_all E W env reply url h p response useAI = Inl e"
  shows "err_response e = None"
  using assms
  by (auto simp: extract_all_def github_step_def Let_def split: sum.splits if_splits
      dest: pre_fallback_error)

lemma scrape_failed_status:
  assumes "err_response e = None \<or> (\<exists>st t. err_response e = Some (st, t) \<and> 500 \<le> st)"
  shows "status (scrape_failed env e) \<in> {400, 408, 413, 500}"
  using assms by (auto simp: scrape_failed_def)

lemma scrape_handler_status:
  "status (fst (scrape_handler E W env reply method body)) \<in> {200, 400, 405, 408, 413, 500}"
proof (cases rule: scrape_handler_result[of E W env reply "method" body])
  case (early r)
  then show ?thesis by auto
next
  case (fetch_failed url h p e)
  then show ?thesis using scrape_failed_status[OF axios_get_rejects[OF fetch_failed(3)], of env] by auto
next
  case (extract_failed url h p response e)
  then show ?thesis
    using scrape_failed_status[of e env] extract_all_error[OF extract_failed(4)] by auto
next
  case (ok url h p response ec fetched)
  then show ?thesis by simp
qed

text \<open>
  C10. A response to the primary fetch with a status from 400 to 499 is accepted by
  \<^verbatim>\<open>validateStatus\<close>: the handler answers 200 with \<^verbatim>\<open>success: true\<close> and the content
  extracted from the error page (on libraries whose selected links have an \<^verbatim>\<open>href\<close>). An
  error of the primary fetch carries a status of 500 or more or none, so no response of the
  handler has the status 403, 404 or 429: those branches of the error mapping are never taken.
\<close>

theorem C10_client_errors_are_scraped:
  "(su_url body = Some url \<and> url \<noteq> [] \<and> URL_parse W url = Some (h, p)
      \<and> net W url 30000 = Inr response \<and> 400 \<le> hr_status response \<and> hr_status response < 500
      \<and> links_have_href W (JSDOM W (hr_data response))
    \<longrightarrow> (\<exists>ec fetched.
          extract_all E W env reply url h p response (su_useAI body) = Inr (ec, fetched)
          \<and> scrape_handler E W env reply ''POST'' body =
              (\<lparr>status = 200, json = JObj [(''success'', JBool True), (''data'', scraped_json ec)]\<rparr>,
               url # fetched)))
   \<and> status (fst (scrape_handler E W env reply method body)) \<notin> {403, 404, 429}"
proof (intro conjI impI)
  assume a: "su_url body = Some url \<and> url \<noteq> [] \<and> URL_parse W url = Some (h, p)
      \<and> net W url 30000 = Inr response \<and> 400 \<le> hr_status response \<and> hr_status response < 500
      \<and> links_have_href W (JSDOM W (hr_data response))"
  then obtain ec fetched where
    x: "extract_all E W env reply url h p response (su_useAI body) = Inr (ec, fetched)"
    using extract_all_total by blast
  have "scrape_handler E W env reply ''POST'' body =
      (\<lparr>status = 200, json = JObj [(''success'', JBool True), (''data'', scraped_json ec)]\<rparr>,
       url # fetched)"
    using a x by (simp add: scrape_handler_def truthy_def str_of_def axios_get_def)
  then show "\<exists>ec fetched.
          extract_all E W env reply url h p response (su_useAI body) = Inr (ec, fetched)
          \<and> scrape_handler E W env reply ''POST'' body =
              (\<lparr>status = 200, json = JObj [(''success'', JBool True), (''data'', scraped_json ec)]\<rparr>,
               url # fetched)"
    using x by blast
next
  show "status (fst (scrape_handler E W env reply method body)) \<notin> {403, 404, 429}"
    using scrape_handler_status[of E W env reply "method" body] by auto
qed

lemma sample_no_file_links: "sample_querySelectorAll d fileLinks_selector = []"
  by (cases "(d, fileLinks_selector)" rule: sample_querySelectorAll.cases)
     (simp_all add: fileLinks_selector_def)

lemma sample_links_have_href: "links_have_href (sample_libs network) d"
  by (simp add: links_have_href_def sample_libs_def sample_no_file_links)

theorem C10_client_errors_are_scraped_witness:
  "status (fst (scrape_handler sample_engine (sample_libs missing_network) sample_env
       (Inl (Error ''unused'')) ''POST'' (post missing_url))) = 200
   \<and> field (field (json (fst (scrape_handler sample_engine (sample_libs missing_network) sample_env
       (Inl (Error ''unused'')) ''POST'' (post missing_url)))) ''data'') ''content''
       = JStr ''404No such page''"
proof -
  let ?response = "\<lparr>hr_status = 404, hr_statusText = ''Not Found'', hr_contentType = Some ''text/html'',
            hr_data = JStr ''<h1>404</h1>No such page''\<rparr>"
  have u: "URL_parse (sample_libs missing_network) missing_url = Some (''example.com'', ''/missing'')"
    by code_simp
  have n: "net (sample_libs missing_network) missing_url 30000 = Inr ?response"
    by (simp add: sample_libs_def missing_network_def)
  have c: "field (field (json (fst (scrape_handler sample_engine (sample_libs missing_network)
       sample_env (Inl (Error ''unused'')) ''POST'' (post missing_url)))) ''data'') ''content''
       = JStr ''404No such page''"
    by code_simp
  have e: "missing_url \<noteq> []" by (simp add: missing_url_def)
  have "\<exists>ec fetched. scrape_handler sample_engine (sample_libs missing_network) sample_env
       (Inl (Error ''unused'')) ''POST'' (post missing_url) =
       (\<lparr>status = 200, json = JObj [(''success'', JBool True), (''data'', scraped_json ec)]\<rparr>,
        missing_url # fetched)"
    using C10_client_errors_are_scraped[of "post missing_url" missing_url "sample_libs missing_network"
        "''example.com''" "''/missing''" ?response sample_engine sample_env "Inl (Error ''unused'')"
        "''POST''"]
      u n e sample_links_have_href[of missing_network]
    by (simp add: post_def) blast
  then have "status (fst (scrape_handler sample_engine (sample_libs missing_network) sample_env
       (Inl (Error ''unused'')) ''POST'' (post missing_url))) = 200"
    by auto
  then show ?thesis using c by simp
qed


lemma raw_fallback_fetches:
  "snd (raw_fallback W ec) = (case fallback_url ec of Some u \<Rightarrow> [u] | None \<Rightarrow> [])"
  by (auto simp: raw_fallback_def fallback_url_def split: jsval.splits sum.splits option.splits)

lemma raw_fallback_none: "fallback_url ec = None \<Longrightarrow> fst (raw_fallback W ec) = ec"
  by (auto simp: raw_fallback_def fallback_url_def split: jsval.splits if_splits)

lemma raw_fallback_result:
  assumes "fallback_url ec = Some u"
  shows "fst (raw_fallback W ec) =
     (case axios_get (\<lambda>s. 200 \<le> s \<and> s < 300) (net W u 10000) of
        Inr rawResponse \<Rightarrow>
          (case raw_text (hr_data rawResponse) of
             Some b \<Rightarrow> set_meta ''rawContentFetched'' (JBool True) (ec\<lparr>sc_content := b\<rparr>)
           | None \<Rightarrow> ec)
      | Inl rawError \<Rightarrow> ec)"
  using assms
  by (auto simp: raw_fallback_def fallback_url_def split: jsval.splits if_splits sum.splits option.splits)

lemma raw_text_Some: "raw_text v = Some b \<longleftrightarrow> v = JStr b \<and> b \<noteq> [] \<and> \<not> str_includes b ''<!DOCTYPE''"
  by (auto simp: raw_text_def split: jsval.splits)

text \<open>
  C5, amended. For a \<^verbatim>\<open>github.com\<close> URL whose primary fetch is answered and whose extraction
  reaches the fallback with the content \<open>pre\<close>: the handler answers 200; besides the primary
  URL it requests the raw URL once if the content is shorter than 500 and the metadata has a
  non-empty raw URL, and nothing otherwise; a successful fetch whose body is a non-empty string
  without \<^verbatim>\<open><!DOCTYPE\<close> overwrites the content and sets \<^verbatim>\<open>rawContentFetched = true\<close>; a
  successful fetch with any other body (empty, not a string, HTML), a failed fetch, and no fetch
  leave the content as it was and the flag unset.
\<close>

theorem C5_raw_fallback:
  assumes "su_url body = Some url" "url \<noteq> []" "URL_parse W url = Some (h, p)"
    and "str_includes h ''github.com''" "\<not> str_includes h ''raw.githubusercontent.com''"
    and "net W url 30000 = Inr response" "hr_status response < 500"
    and "pre_fallback E W (JSDOM W (hr_data response)) p
           (set_meta ''source'' (JStr ''github'')
             ((extract_page W (JSDOM W (hr_data response)))
                \<lparr>sc_metadata := initial_metadata env url h response\<rparr>)) = Inr pre"
    and "r = fst (scrape_handler E W env reply ''POST'' body)"
    and "fetched = snd (scrape_handler E W env reply ''POST'' body)"
    and "data = field (json r) ''data''" and "md = field data ''metadata''"
    and "raw = (\<lambda>u. axios_get (\<lambda>s. 200 \<le> s \<and> s < 300) (net W u 10000))"
  shows "status r = 200
     \<and> fetched = url # (case fallback_url pre of Some u \<Rightarrow> [u] | None \<Rightarrow> [])
     \<and> (fallback_url pre = Some u \<and> raw u = Inr rawResponse \<and> hr_data rawResponse = JStr b
          \<and> b \<noteq> [] \<and> \<not> str_includes b ''<!DOCTYPE''
        \<longrightarrow> field data ''content'' = JStr b \<and> field md ''rawContentFetched'' = JBool True)
     \<and> (fallback_url pre = Some u \<and> raw u = Inr rawResponse \<and> raw_text (hr_data rawResponse) = None
        \<longrightarrow> field data ''content'' = JStr (sc_content pre) \<and> field md ''rawContentFetched'' = JUndefined)
     \<and> (fallback_url pre = Some u \<and> raw u = Inl rawError
        \<longrightarrow> field data ''content'' = JStr (sc_content pre) \<and> field md ''rawContentFetched'' = JUndefined)
     \<and> (fallback_url pre = None
        \<longrightarrow> field data ''content'' = JStr (sc_content pre) \<and> field md ''rawContentFetched'' = JUndefined)"
proof -
  let ?doc = "JSDOM W (hr_data response)"
  let ?ec0 = "(extract_page W ?doc)\<lparr>sc_metadata := initial_metadata env url h response\<rparr>"
  let ?fb = "fst (raw_fallback W pre)"
  let ?final = "ai_step E env reply (su_useAI body) (og_step W ?doc (markdown_step W ?doc p
                  (claude_docs_step W ?doc h ?fb)))"
  have g: "github_step E W ?doc h p response ?ec0 = Inr (raw_fallback W pre)"
    using assms(4,5,8) by (simp add: github_step_def Let_def)
  have x: "extract_all E W env reply url h p response (su_useAI body)
             = Inr (?final, snd (raw_fallback W pre))"
    by (simp add: extract_all_def Let_def g split_beta)
  have hd: "scrape_handler E W env reply ''POST'' body
             = (\<lparr>status = 200, json = JObj [(''success'', JBool True), (''data'', scraped_json ?final)]\<rparr>,
                url # snd (raw_fallback W pre))"
    using assms(1,2,3,6,7)
    by (simp add: scrape_handler_def truthy_def str_of_def axios_get_def x)
  have k: "''rawContentFetched'' \<notin> set late_keys" "''rawContentFetched'' \<notin> set github_keys"
    by (simp_all add: late_keys_def github_keys_def)
  have d: "field data ''content'' = JStr (sc_content ?fb)"
    and m: "field md ''rawContentFetched'' = get_key (sc_metadata ?fb) ''rawContentFetched''"
    using assms(9,11,12) hd
    by (simp_all add: get_key_simps field_JObj scraped_json_fields late_steps_keep k)
  have before: "get_key (sc_metadata pre) ''rawContentFetched'' = JUndefined"
    using pre_fallback_keeps[OF assms(8) k(2)]
    by (simp add: get_meta_set_meta initial_metadata_def get_key_simps)
  have s: "status r = 200" and f: "fetched = url # (case fallback_url pre of Some u \<Rightarrow> [u] | None \<Rightarrow> [])"
    using assms(9,10) hd by (simp_all add: raw_fallback_fetches)
  have 1: "fallback_url pre = Some u \<and> raw u = Inr rawResponse \<and> hr_data rawResponse = JStr b
          \<and> b \<noteq> [] \<and> \<not> str_includes b ''<!DOCTYPE''
        \<longrightarrow> field data ''content'' = JStr b \<and> field md ''rawContentFetched'' = JBool True"
    using raw_text_Some[of "hr_data rawResponse" b]
    by (auto simp: d m assms(13) raw_fallback_result set_meta_simps get_key_set_key)
  have 2: "fallback_url pre = Some u \<and> raw u = Inr rawResponse \<and> raw_text (hr_data rawResponse) = None
        \<longrightarrow> field data ''content'' = JStr (sc_content pre) \<and> field md ''rawContentFetched'' = JUndefined"
    by (auto simp: d m assms(13) raw_fallback_result before)
  have 3: "fallback_url pre = Some u \<and> raw u = Inl rawError
        \<longrightarrow> field data ''content'' = JStr (sc_content pre) \<and> field md ''rawContentFetched'' = JUndefined"
    by (auto simp: d m assms(13) raw_fallback_result before)
  have 4: "fallback_url pre = None
        \<longrightarrow> field data ''content'' = JStr (sc_content pre) \<and> field md ''rawContentFetched'' = JUndefined"
    by (auto simp: d m raw_fallback_none before)
  show ?thesis using s f 1 2 3 4 by blast
qed

text \<open>
  C5. In a Scrape of a \<^verbatim>\<open>github.com\<close> blob URL the fallback fetch is made exactly when the
  content is shorter than 500 and a raw URL was computed, and a successful fetch with a
  non-HTML string body overwrites the content and sets \<^verbatim>\<open>rawContentFetched\<close>. The handler
  tests the body for truthiness first: for a blob page whose raw file is empty the fallback is
  made and answered 200 with the empty string, which contains no \<^verbatim>\<open><!DOCTYPE\<close>, and the
  content stays the text of the HTML page and the flag is not set.
\<close>

theorem C5_empty_raw_file_counterexample:
  "snd (scrape_handler sample_engine (sample_libs blob_network) sample_env (Inl (Error ''unused''))
        ''POST'' (post blob_url))
     = [blob_url, ''https://raw.githubusercontent.com/o/r/main/empty.txt'']
   \<and> axios_get (\<lambda>s. 200 \<le> s \<and> s < 300)
        (net (sample_libs blob_network) ''https://raw.githubusercontent.com/o/r/main/empty.txt'' 10000)
     = Inr \<lparr>hr_status = 200, hr_statusText = ''OK'', hr_contentType = Some ''text/plain'',
            hr_data = JStr ''''\<rparr>
   \<and> \<not> str_includes '''' ''<!DOCTYPE''
   \<and> field (field (json (fst (scrape_handler sample_engine (sample_libs blob_network) sample_env
        (Inl (Error ''unused'')) ''POST'' (post blob_url)))) ''data'') ''content''
     = JStr ''empty.txtFile view''
   \<and> field (field (field (json (fst (scrape_handler sample_engine (sample_libs blob_network)
        sample_env (Inl (Error ''unused'')) ''POST'' (post blob_url)))) ''data'') ''metadata'')
        ''rawContentFetched'' = JUndefined"
  by code_simp


theorem C5_raw_fallback_witness:
  "snd (scrape_handler sample_engine (sample_libs notes_network) sample_env (Inl (Error ''unused''))
        ''POST'' (post notes_url))
     = [notes_url, ''https://raw.githubusercontent.com/o/r/main/notes.txt'']
   \<and> field (field (json (fst (scrape_handler sample_engine (sample_libs notes_network) sample_env
        (Inl (Error ''unused'')) ''POST'' (post notes_url)))) ''data'') ''content''
     = JStr ''remember the milk''
   \<and> field (field (field (json (fst (scrape_handler sample_engine (sample_libs notes_network)
        sample_env (Inl (Error ''unused'')) ''POST'' (post notes_url)))) ''data'') ''metadata'')
        ''rawContentFetched'' = JBool True"
proof -
  let ?W = "sample_libs notes_network"
  let ?page = "ok_response ''text/html'' ''<h1>notes.txt</h1>File view''"
  let ?raw = "''https://raw.githubusercontent.com/o/r/main/notes.txt''"
  let ?ec = "set_meta ''source'' (JStr ''github'')
             ((extract_page ?W (JSDOM ?W (hr_data ?page)))
                \<lparr>sc_metadata := initial_metadata sample_env notes_url ''github.com'' ?page\<rparr>)"
  define pre where "pre = projr (pre_fallback sample_engine ?W (JSDOM ?W (hr_data ?page))
                                   ''/o/r/blob/main/notes.txt'' ?ec)"
  have b: "su_url (post notes_url) = Some notes_url" and e: "notes_url \<noteq> []"
    by (simp_all add: post_def notes_url_def)
  have u: "URL_parse ?W notes_url = Some (''github.com'', ''/o/r/blob/main/notes.txt'')"
    and i1: "str_includes ''github.com'' ''github.com''"
    and i2: "\<not> str_includes ''github.com'' ''raw.githubusercontent.com''"
    by code_simp+
  have n: "net ?W notes_url 30000 = Inr ?page" and st: "hr_status ?page < 500"
    by (simp_all add: sample_libs_def notes_network_def ok_response_def)
  obtain pre' where "pre_fallback sample_engine ?W (JSDOM ?W (hr_data ?page))
                       ''/o/r/blob/main/notes.txt'' ?ec = Inr pre'"
    using pre_fallback_total[OF sample_links_have_href] by blast
  then have pf: "pre_fallback sample_engine ?W (JSDOM ?W (hr_data ?page))
                   ''/o/r/blob/main/notes.txt'' ?ec = Inr pre"
    by (simp add: pre_def)
  have fu: "fallback_url pre = Some ?raw"
    unfolding pre_def by code_simp
  have rw: "axios_get (\<lambda>s. 200 \<le> s \<and> s < 300) (net ?W ?raw 10000)
              = Inr (ok_response ''text/plain'' ''remember the milk'')"
    by code_simp
  have body: "hr_data (ok_response ''text/plain'' ''remember the milk'') = JStr ''remember the milk''"
    and ne: "''remember the milk'' \<noteq> []"
    and nd: "\<not> str_includes ''remember the milk'' ''<!DOCTYPE''"
    by code_simp+
  show ?thesis
    using C5_raw_fallback[where u = ?raw
          and rawResponse = "ok_response ''text/plain'' ''remember the milk''"
          and b = "''remember the milk''", OF b e u i1 i2 n st pf refl refl refl refl refl]
      fu rw body ne nd
    by simp
qed


end
